theory Spec2Isabelle
  imports Complex_Main "HOL-Library.Multiset"
begin

section \<open>Planet Builders: the game logic of App.tsx\<close>

text \<open>
  The application is one React function component. Its state lives in \<open>useState\<close>
  cells; every handler is a closure created by one render and reads the values that
  render captured. A setter call \<open>setX(v)\<close> does not change what the running handler
  reads: it replaces the cell for the next render, and of several calls on one cell the
  last one stands. A setter called with a function (\<open>setX(prev => ...)\<close>) is applied to
  the pending value instead.

  The model follows this literally. Every handler takes two states: \<open>env\<close>, the values
  captured by the render that created the handler (all reads), and \<open>st\<close>, the state
  under construction (all writes). An event runs its handler with \<open>env = st\<close>.

  Numbers are JavaScript doubles that hold integers here (counters, ages, minutes); they
  are modelled as \<open>int\<close>, exact below \<open>2^53\<close>. The combo multiplier and the coordinates of
  a placed item are fractions and are modelled as \<open>rat\<close>.
\<close>

subsection \<open>Types\<close>

datatype AgeGroup = Age_5_6 | Age_7_8 | Age_9_10 | Age_11_12

datatype MissionType = Maths | English | Science

datatype BiomeType = Grass | Forest | Ocean | Volcano | Ice | Desert | Crystal | Space

datatype StructureType = House | Tower | Tree | Rocket | Bridge | Dome | Mine | Lab

datatype CreatureType = Blob | Floater | Runner | Flyer | Giant

datatype ItemKind = KBiome | KStructure | KCreature

datatype ItemType = IBiome BiomeType | IStructure StructureType | ICreature CreatureType

text \<open>Field names shared by several interfaces of the source carry a prefix here.\<close>

record PlanetItem =
  item_id :: string
  item_type :: ItemKind
  itemType :: ItemType
  position :: "rat \<times> rat"
  item_level :: int

record PlayerProfile =
  profile_id :: string
  profile_name :: string
  age :: int
  ageGroup :: AgeGroup
  crystals :: int
  artifacts :: int
  specimens :: int
  solarEnergy :: int
  xp :: int
  level :: int
  streak :: int
  lastActiveDate :: string
  planetName :: string
  planetItems :: "PlanetItem list"
  unlockedBiomes :: "BiomeType list"
  unlockedStructures :: "StructureType list"
  unlockedCreatures :: "CreatureType list"
  mathsCorrect :: int
  englishCorrect :: int
  scienceCorrect :: int
  totalCorrect :: int
  bestCombo :: int
  offScreenMinutes :: int
  currentCombo :: int

text \<open>The optional \<open>explanation\<close> of a question is never set by the code and is left out.\<close>

record Question =
  question :: string
  options :: "string list"
  correctIndex :: int

text \<open>The \<open>icon\<close> fields hold emoji for display only and are left out.\<close>

record PendingActivity =
  activity_id :: string
  activity_name :: string
  minutes :: int
  activity_solarEnergy :: int
  date :: string

subsection \<open>Game configuration\<close>

definition XP_PER_LEVEL :: int where
  "XP_PER_LEVEL = 100"

record BiomeShopItem =
  biome_type :: BiomeType
  biome_name :: string
  biome_cost_crystals :: int
  biome_cost_solar :: int

record StructureShopItem =
  structure_type :: StructureType
  structure_name :: string
  structure_cost_crystals :: int
  structure_cost_artifacts :: int

record CreatureShopItem =
  creature_type :: CreatureType
  creature_name :: string
  creature_cost_specimens :: int

definition BIOME_SHOP :: "BiomeShopItem list" where
  "BIOME_SHOP =
    [\<lparr>biome_type = Grass, biome_name = ''Grassland'', biome_cost_crystals = 0, biome_cost_solar = 0\<rparr>,
     \<lparr>biome_type = Forest, biome_name = ''Forest'', biome_cost_crystals = 50, biome_cost_solar = 20\<rparr>,
     \<lparr>biome_type = Ocean, biome_name = ''Ocean'', biome_cost_crystals = 80, biome_cost_solar = 30\<rparr>,
     \<lparr>biome_type = Desert, biome_name = ''Desert'', biome_cost_crystals = 100, biome_cost_solar = 40\<rparr>,
     \<lparr>biome_type = Ice, biome_name = ''Ice Lands'', biome_cost_crystals = 150, biome_cost_solar = 50\<rparr>,
     \<lparr>biome_type = Volcano, biome_name = ''Volcano'', biome_cost_crystals = 200, biome_cost_solar = 60\<rparr>,
     \<lparr>biome_type = Crystal, biome_name = ''Crystal Caves'', biome_cost_crystals = 300, biome_cost_solar = 80\<rparr>,
     \<lparr>biome_type = Space, biome_name = ''Space Station'', biome_cost_crystals = 500, biome_cost_solar = 100\<rparr>]"

definition STRUCTURE_SHOP :: "StructureShopItem list" where
  "STRUCTURE_SHOP =
    [\<lparr>structure_type = House, structure_name = ''House'', structure_cost_crystals = 20, structure_cost_artifacts = 5\<rparr>,
     \<lparr>structure_type = Tree, structure_name = ''Magic Tree'', structure_cost_crystals = 15, structure_cost_artifacts = 3\<rparr>,
     \<lparr>structure_type = Tower, structure_name = ''Tower'', structure_cost_crystals = 50, structure_cost_artifacts = 15\<rparr>,
     \<lparr>structure_type = Mine, structure_name = ''Crystal Mine'', structure_cost_crystals = 80, structure_cost_artifacts = 20\<rparr>,
     \<lparr>structure_type = Lab, structure_name = ''Science Lab'', structure_cost_crystals = 100, structure_cost_artifacts = 30\<rparr>,
     \<lparr>structure_type = Dome, structure_name = ''Bio Dome'', structure_cost_crystals = 150, structure_cost_artifacts = 40\<rparr>,
     \<lparr>structure_type = Bridge, structure_name = ''Rainbow Bridge'', structure_cost_crystals = 200, structure_cost_artifacts = 50\<rparr>,
     \<lparr>structure_type = Rocket, structure_name = ''Rocket'', structure_cost_crystals = 400, structure_cost_artifacts = 100\<rparr>]"

definition CREATURE_SHOP :: "CreatureShopItem list" where
  "CREATURE_SHOP =
    [\<lparr>creature_type = Blob, creature_name = ''Space Blob'', creature_cost_specimens = 10\<rparr>,
     \<lparr>creature_type = Floater, creature_name = ''Floater'', creature_cost_specimens = 25\<rparr>,
     \<lparr>creature_type = Runner, creature_name = ''Zoom Runner'', creature_cost_specimens = 40\<rparr>,
     \<lparr>creature_type = Flyer, creature_name = ''Sky Dancer'', creature_cost_specimens = 60\<rparr>,
     \<lparr>creature_type = Giant, creature_name = ''Gentle Giant'', creature_cost_specimens = 100\<rparr>]"

record Activity =
  act_id :: string
  act_name :: string
  solarPerMin :: int

definition ACTIVITIES :: "Activity list" where
  "ACTIVITIES =
    [\<lparr>act_id = ''outdoor'', act_name = ''Played Outside'', solarPerMin = 3\<rparr>,
     \<lparr>act_id = ''reading'', act_name = ''Read a Book'', solarPerMin = 2\<rparr>,
     \<lparr>act_id = ''creative'', act_name = ''Arts & Crafts'', solarPerMin = 2\<rparr>,
     \<lparr>act_id = ''helping'', act_name = ''Helped at Home'', solarPerMin = 2\<rparr>,
     \<lparr>act_id = ''exercise'', act_name = ''Exercise/Sport'', solarPerMin = 3\<rparr>,
     \<lparr>act_id = ''social'', act_name = ''Played with Friends'', solarPerMin = 2\<rparr>]"

text \<open>
  \<open>AGE_CONFIG\<close>: the range and the operations of the arithmetic questions. The spelling
  words belong to the English generator, which is not modelled.
\<close>

record AgeConfig =
  mathsRange_min :: int
  mathsRange_max :: int
  operations :: "string list"

fun AGE_CONFIG :: "AgeGroup \<Rightarrow> AgeConfig" where
  "AGE_CONFIG Age_5_6 =
     \<lparr>mathsRange_min = 1, mathsRange_max = 10,
      operations = [''addition'', ''subtraction'']\<rparr>"
| "AGE_CONFIG Age_7_8 =
     \<lparr>mathsRange_min = 1, mathsRange_max = 50,
      operations = [''addition'', ''subtraction'', ''multiplication'']\<rparr>"
| "AGE_CONFIG Age_9_10 =
     \<lparr>mathsRange_min = 1, mathsRange_max = 100,
      operations = [''addition'', ''subtraction'', ''multiplication'', ''division'']\<rparr>"
| "AGE_CONFIG Age_11_12 =
     \<lparr>mathsRange_min = 1, mathsRange_max = 1000,
      operations = [''addition'', ''subtraction'', ''multiplication'', ''division'']\<rparr>"

subsection \<open>Library functions of the platform\<close>

text \<open>
  \<open>Number.prototype.toString\<close> and \<open>String(n)\<close> on an integer: its decimal digits, with
  a leading minus sign when negative (below \<open>10^21\<close> in size, where JavaScript switches
  to exponent notation).
\<close>

definition digit_char :: "nat \<Rightarrow> char" where
  "digit_char d = char_of (48 + d)"

function string_of_nat :: "nat \<Rightarrow> string" where
  "string_of_nat n =
     (if n < 10 then [digit_char n] else string_of_nat (n div 10) @ [digit_char (n mod 10)])"
  by pat_completeness auto
termination
  by (relation "measure id") auto

declare string_of_nat.simps [simp del]

definition String :: "int \<Rightarrow> string" where
  "String i = (if i < 0 then CHR ''-'' # string_of_nat (nat (- i)) else string_of_nat (nat i))"

text \<open>\<open>Array.prototype.indexOf\<close>: the first position of a value, \<open>-1\<close> when absent.\<close>

fun indexOf :: "'a list \<Rightarrow> 'a \<Rightarrow> int" where
  "indexOf [] v = - 1"
| "indexOf (x # xs) v =
     (if x = v then 0 else (let i = indexOf xs v in if i < 0 then - 1 else i + 1))"

text \<open>\<open>Array.prototype.find\<close>: the first element that satisfies the predicate.\<close>

fun find_first :: "('a \<Rightarrow> bool) \<Rightarrow> 'a list \<Rightarrow> 'a option" where
  "find_first P [] = None"
| "find_first P (x # xs) = (if P x then Some x else find_first P xs)"

definition Math_floor :: "rat \<Rightarrow> int" where
  "Math_floor x = \<lfloor>x\<rfloor>"

text \<open>\<open>Math.round\<close> rounds to the nearest integer, halves upwards.\<close>

definition Math_round :: "rat \<Rightarrow> int" where
  "Math_round x = \<lfloor>x + 1 / 2\<rfloor>"

subsection \<open>Helper functions\<close>

definition createDefaultProfile :: "string \<Rightarrow> int \<Rightarrow> int \<Rightarrow> string \<Rightarrow> PlayerProfile" where
  \<comment> \<open>\<open>now\<close> is \<open>Date.now()\<close>, \<open>today\<close> the ISO date of the same instant.\<close>
  "createDefaultProfile name a now today =
     \<lparr>profile_id = String now,
      profile_name = name,
      age = a,
      ageGroup = (if a \<le> 6 then Age_5_6 else if a \<le> 8 then Age_7_8
                  else if a \<le> 10 then Age_9_10 else Age_11_12),
      crystals = 50,
      artifacts = 10,
      specimens = 5,
      solarEnergy = 30,
      xp = 0,
      level = 1,
      streak = 0,
      lastActiveDate = today,
      planetName = name @ [char_of (39::nat)] @ ''s World'',
      planetItems =
        [\<lparr>item_id = ''1'', item_type = KBiome, itemType = IBiome Grass,
          position = (50, 50), item_level = 1\<rparr>],
      unlockedBiomes = [Grass],
      unlockedStructures = [],
      unlockedCreatures = [],
      mathsCorrect = 0,
      englishCorrect = 0,
      scienceCorrect = 0,
      totalCorrect = 0,
      bestCombo = 0,
      offScreenMinutes = 0,
      currentCombo = 0\<rparr>"

definition getComboMultiplier :: "int \<Rightarrow> rat" where
  "getComboMultiplier combo =
     (if combo \<ge> 10 then 5
      else if combo \<ge> 7 then 3
      else if combo \<ge> 5 then 2
      else if combo \<ge> 3 then 3 / 2
      else 1)"

subsection \<open>Component state\<close>

datatype Screen = SProfiles | SPlanet | SMissions | SMissionPlay | SBuild | SLeaderboard | SParent

datatype ResourceType = RCrystals | RArtifacts | RSpecimens

text \<open>
  The \<open>useState\<close> cells of \<open>App\<close> that the handlers below read or write. \<open>alerts\<close> is
  not a cell: it is the log of the \<open>Alert.alert(title, message)\<close> calls, the only
  output of a handler besides the state. Vibration and animations are not modelled, nor
  are the timers that hide the reward and level-up popups again.
\<close>

record AppState =
  screen :: Screen
  currentMissionType :: MissionType
  profiles :: "PlayerProfile list"
  currentProfile :: "PlayerProfile option"
  showCreateProfile :: bool
  newName :: string
  newAge :: string
  currentQuestion :: "Question option"
  selectedAnswer :: "int option"
  isAnswered :: bool
  sessionCorrect :: int
  sessionTotal :: int
  pendingActivities :: "PendingActivity list"
  selectedActivity :: "string option"
  activityMinutes :: string
  showActivityModal :: bool
  isParentMode :: bool
  showLevelUp :: bool
  showReward :: "(ResourceType \<times> int) option"
  alerts :: "(string \<times> string) list"

definition initialState :: AppState where
  "initialState =
     \<lparr>screen = SProfiles,
      currentMissionType = Maths,
      profiles = [],
      currentProfile = None,
      showCreateProfile = False,
      newName = [],
      newAge = [],
      currentQuestion = None,
      selectedAnswer = None,
      isAnswered = False,
      sessionCorrect = 0,
      sessionTotal = 0,
      pendingActivities = [],
      selectedActivity = None,
      activityMinutes = [],
      showActivityModal = False,
      isParentMode = False,
      showLevelUp = False,
      showReward = None,
      alerts = []\<rparr>"

definition Alert_alert :: "string \<Rightarrow> string \<Rightarrow> AppState \<Rightarrow> AppState" where
  "Alert_alert title message st = st\<lparr>alerts := alerts st @ [(title, message)]\<rparr>"

subsection \<open>Data persistence\<close>

text \<open>
  \<open>saveProfiles\<close> and \<open>savePendingActivities\<close> await the write to \<open>AsyncStorage\<close> and
  then set the cell; a write that fails is caught and the cell is not set. The store
  itself is not modelled. Writes complete in the order they were issued, so the cell ends
  with the list of the last call. For the profile list the write is taken to succeed.
  For the pending activities its outcome is the parameter \<open>stored\<close>: \<open>True\<close> when the
  awaited \<open>setItem\<close> resolves, \<open>False\<close> when it rejects.
\<close>

definition saveProfiles :: "PlayerProfile list \<Rightarrow> AppState \<Rightarrow> AppState" where
  "saveProfiles newProfiles st = st\<lparr>profiles := newProfiles\<rparr>"

definition savePendingActivities ::
  "bool \<Rightarrow> PendingActivity list \<Rightarrow> AppState \<Rightarrow> AppState" where
  "savePendingActivities stored activities st =
     (if stored then st\<lparr>pendingActivities := activities\<rparr> else st)"

definition updateProfile :: "AppState \<Rightarrow> PlayerProfile \<Rightarrow> AppState \<Rightarrow> AppState" where
  "updateProfile env profile st =
     (let updated = map (\<lambda>p. if profile_id p = profile_id profile then profile else p)
                        (profiles env)
      in (saveProfiles updated st)\<lparr>currentProfile := Some profile\<rparr>)"

subsection \<open>Profile management\<close>

definition selectProfile ::
  "PlayerProfile \<Rightarrow> string \<Rightarrow> string \<Rightarrow> AppState \<Rightarrow> AppState \<Rightarrow> AppState" where
  \<comment> \<open>\<open>today\<close> and \<open>yesterday\<close> are the ISO dates the handler computes from the clock.\<close>
  "selectProfile profile today yesterday env st =
     (let updatedProfile =
            (if lastActiveDate profile = yesterday
             then profile\<lparr>streak := streak profile + 1\<rparr>
             else if lastActiveDate profile \<noteq> today
             then profile\<lparr>streak := 1\<rparr>
             else profile)\<lparr>lastActiveDate := today\<rparr>;
          st1 = st\<lparr>currentProfile := Some updatedProfile\<rparr>;
          st2 = updateProfile env updatedProfile st1
      in st2\<lparr>screen := SPlanet\<rparr>)"

definition createProfile ::
  "(string \<Rightarrow> string) \<Rightarrow> (string \<Rightarrow> int option) \<Rightarrow> int \<Rightarrow> string \<Rightarrow> string
     \<Rightarrow> AppState \<Rightarrow> AppState \<Rightarrow> AppState" where
  \<comment> \<open>\<open>trim\<close> is \<open>String.prototype.trim\<close> and \<open>parseInt\<close> the global function, \<open>None\<close> for
      \<open>NaN\<close>; both belong to the platform and are parameters. \<open>now\<close> is \<open>Date.now()\<close>.\<close>
  "createProfile trim parseInt now today yesterday env st =
     (if trim (newName env) = [] \<or> trim (newAge env) = []
      then Alert_alert ''Oops!'' ''Please enter a name and age'' st
      else case parseInt (newAge env) of
        None \<Rightarrow> Alert_alert ''Oops!'' ''Please enter an age between 4 and 14'' st
      | Some a \<Rightarrow>
          if a < 4 \<or> a > 14
          then Alert_alert ''Oops!'' ''Please enter an age between 4 and 14'' st
          else
            (let profile = createDefaultProfile (trim (newName env)) a now today;
                 updated = profiles env @ [profile];
                 st1 = saveProfiles updated st;
                 st2 = st1\<lparr>newName := [], newAge := [], showCreateProfile := False\<rparr>
             in selectProfile profile today yesterday env st2))"

subsection \<open>Game logic\<close>

definition addXP :: "int \<Rightarrow> AppState \<Rightarrow> AppState \<Rightarrow> AppState" where
  "addXP amount env st =
     (case currentProfile env of
        None \<Rightarrow> st
      | Some cp \<Rightarrow>
          (let oldLevel = level cp;
               newXP = xp cp + amount;
               newLevel = Math_floor (of_int newXP / of_int XP_PER_LEVEL) + 1;
               updated = cp\<lparr>xp := newXP, level := newLevel\<rparr>
           in if newLevel > oldLevel
              then updateProfile env
                     (updated\<lparr>crystals := crystals updated + 25 * newLevel,
                              solarEnergy := solarEnergy updated + 10 * newLevel\<rparr>)
                     (st\<lparr>showLevelUp := True\<rparr>)
              else updateProfile env updated st))"

text \<open>The computed key \<open>[type]: currentProfile[type] + amount\<close>.\<close>

fun credit :: "ResourceType \<Rightarrow> int \<Rightarrow> PlayerProfile \<Rightarrow> PlayerProfile" where
  "credit RCrystals amount p = p\<lparr>crystals := crystals p + amount\<rparr>"
| "credit RArtifacts amount p = p\<lparr>artifacts := artifacts p + amount\<rparr>"
| "credit RSpecimens amount p = p\<lparr>specimens := specimens p + amount\<rparr>"

definition addResources :: "ResourceType \<Rightarrow> int \<Rightarrow> AppState \<Rightarrow> AppState \<Rightarrow> AppState" where
  "addResources type baseAmount env st =
     (case currentProfile env of
        None \<Rightarrow> st
      | Some cp \<Rightarrow>
          (let multiplier = getComboMultiplier (currentCombo cp);
               amount = Math_floor (of_int baseAmount * multiplier);
               updated = credit type amount cp
           in (updateProfile env updated st)\<lparr>showReward := Some (type, amount)\<rparr>))"

subsection \<open>Mission logic\<close>

text \<open>
  The generator uses \<open>Math.random()\<close> only as \<open>Math.floor(Math.random() * n)\<close>. The
  product is a double, rounded before the floor is taken (the double nearest to 0.7
  times 10 is 7, although that double lies below 7/10), so the floored value is not the
  floor of the exact product. The model takes these values as they come: a run of the
  random source is a function \<open>rnd\<close>, and \<open>rnd k n\<close> is the value of
  \<open>Math.floor(Math.random() * n)\<close> at the \<open>k\<close>-th call of \<open>Math.random()\<close>. The functions are
  defined on any \<open>rnd\<close>, and the theorems say what they need of it.

  The \<open>switch\<close> of \<open>generateMathsQuestion\<close>: it picks the operation with call 0 and the
  operands with calls 1 and 2, and yields \<open>(a, b, answer, questionText)\<close>. An index outside
  the operations list reads \<open>undefined\<close> and takes the \<open>default\<close> branch. \<open>lo\<close> and \<open>hi\<close>
  are the source's \<open>min\<close> and \<open>max\<close>; in the subtraction \<open>a0\<close> and \<open>b0\<close> are the operands
  before the swap. The signs of multiplication and division are not ASCII; they stand
  as their UTF-8 bytes.
\<close>

definition mathsSwitch ::
  "(nat \<Rightarrow> int \<Rightarrow> int) \<Rightarrow> AgeConfig \<Rightarrow> int \<times> int \<times> int \<times> string" where
  "mathsSwitch rnd config =
     (let lo = mathsRange_min config;
          hi = mathsRange_max config;
          k = rnd 0 (int (length (operations config)));
          operation = (if 0 \<le> k \<and> k < int (length (operations config))
                       then Some (operations config ! nat k) else None)
      in if operation = Some ''addition'' then
           (let a = rnd 1 (hi - lo + 1) + lo;
                b = rnd 2 (hi - lo + 1) + lo
            in (a, b, a + b, String a @ '' + '' @ String b @ '' = ?''))
         else if operation = Some ''subtraction'' then
           (let a0 = rnd 1 (hi - lo + 1) + lo;
                b0 = rnd 2 (min a0 hi) + 1;
                a = (if b0 > a0 then b0 else a0);
                b = (if b0 > a0 then a0 else b0)
            in (a, b, a - b, String a @ '' - '' @ String b @ '' = ?''))
         else if operation = Some ''multiplication'' then
           (let a = rnd 1 12 + 1;
                b = rnd 2 12 + 1
            in (a, b, a * b,
                String a @ '' '' @ [char_of (195::nat), char_of (151::nat)] @ '' ''
                  @ String b @ '' = ?''))
         else if operation = Some ''division'' then
           (let b = rnd 1 12 + 1;
                answer = rnd 2 12 + 1;
                a = b * answer
            in (a, b, answer,
                String a @ '' '' @ [char_of (195::nat), char_of (183::nat)] @ '' ''
                  @ String b @ '' = ?''))
         else
           (let a = rnd 1 hi + 1;
                b = rnd 2 hi + 1
            in (a, b, a + b, String a @ '' + '' @ String b @ '' = ?'')))"

text \<open>
  The loop \<open>while (options.length < 4)\<close>. Iteration by iteration it calls the random
  source, forms \<open>wrong\<close>, the answer plus \<open>Math.floor(Math.random() * 10) - 5\<close>, and keeps
  it when it is not the answer, not negative and not yet among the options. Nothing bounds the number of
  iterations, so the loop is a partial function: \<open>None\<close> is the run that never leaves
  the loop.
\<close>

definition wrong :: "(nat \<Rightarrow> int \<Rightarrow> int) \<Rightarrow> nat \<Rightarrow> int \<Rightarrow> int" where
  \<comment> \<open>the \<open>wrong\<close> of the iteration that makes call \<open>i\<close>\<close>
  "wrong rnd i answer = answer + (rnd i 10 - 5)"

partial_function (option) distractorLoop ::
  "(nat \<Rightarrow> int \<Rightarrow> int) \<Rightarrow> nat \<Rightarrow> int \<Rightarrow> int list \<Rightarrow> int list option" where
  "distractorLoop rnd i answer opts =
     (if length opts < 4
      then (if wrong rnd i answer \<noteq> answer \<and> wrong rnd i answer \<ge> 0
               \<and> wrong rnd i answer \<notin> set opts
            then distractorLoop rnd (i + 1) answer (opts @ [wrong rnd i answer])
            else distractorLoop rnd (i + 1) answer opts)
      else Some opts)"

text \<open>
  \<open>options.sort(() => Math.random() - 0.5)\<close> sorts with a comparator that answers at
  random. What order comes out depends on the engine's sorting algorithm and on the
  draws the comparator consumes; the outcome is the parameter \<open>srt\<close>, and the theorems
  say when they need it to be a permutation of its argument.
\<close>

definition generateMathsQuestion ::
  "(nat \<Rightarrow> int \<Rightarrow> int) \<Rightarrow> (int list \<Rightarrow> int list) \<Rightarrow> PlayerProfile option
     \<Rightarrow> Question option" where
  "generateMathsQuestion rnd srt cur =
     (case cur of
        None \<Rightarrow> Some \<lparr>question = [], options = [], correctIndex = 0\<rparr>
      | Some cp \<Rightarrow>
          (case mathsSwitch rnd (AGE_CONFIG (ageGroup cp)) of
             (a, b, answer, questionText) \<Rightarrow>
               (case distractorLoop rnd 3 answer [answer] of
                  None \<Rightarrow> None
                | Some opts \<Rightarrow>
                    (let shuffled = srt opts
                     in Some \<lparr>question = questionText,
                              options = map String shuffled,
                              correctIndex = indexOf shuffled answer\<rparr>))))"

text \<open>
  \<open>generateEnglishQuestion\<close> and \<open>generateScienceQuestion\<close> are not modelled: the question
  either of them returns is the parameter \<open>other\<close> (\<open>None\<close> when it does not return).
\<close>

definition generateQuestion ::
  "(nat \<Rightarrow> int \<Rightarrow> int) \<Rightarrow> (int list \<Rightarrow> int list) \<Rightarrow> Question option \<Rightarrow> MissionType
     \<Rightarrow> AppState \<Rightarrow> AppState \<Rightarrow> AppState option" where
  "generateQuestion rnd srt other type env st =
     (case (case type of
              Maths \<Rightarrow> generateMathsQuestion rnd srt (currentProfile env)
            | English \<Rightarrow> other
            | Science \<Rightarrow> other) of
        None \<Rightarrow> None
      | Some q \<Rightarrow>
          Some (st\<lparr>currentQuestion := Some q, selectedAnswer := None, isAnswered := False\<rparr>))"

definition startMission ::
  "(nat \<Rightarrow> int \<Rightarrow> int) \<Rightarrow> (int list \<Rightarrow> int list) \<Rightarrow> Question option \<Rightarrow> MissionType
     \<Rightarrow> AppState \<Rightarrow> AppState \<Rightarrow> AppState option" where
  "startMission rnd srt other type env st =
     (let st1 = st\<lparr>currentMissionType := type, sessionCorrect := 0, sessionTotal := 0\<rparr>;
          st2 = (case currentProfile env of
                   None \<Rightarrow> st1
                 | Some cp \<Rightarrow> updateProfile env (cp\<lparr>currentCombo := 0\<rparr>) st1)
      in case generateQuestion rnd srt other type env st2 of
           None \<Rightarrow> None
         | Some st3 \<Rightarrow> Some (st3\<lparr>screen := SMissionPlay\<rparr>))"

definition answerQuestion :: "int \<Rightarrow> AppState \<Rightarrow> AppState \<Rightarrow> AppState" where
  "answerQuestion index env st =
     (case (currentQuestion env, currentProfile env) of
        (Some q, Some cp) \<Rightarrow>
          if isAnswered env then st
          else
            (let st1 = st\<lparr>selectedAnswer := Some index, isAnswered := True\<rparr>;
                 isCorrect = (index = correctIndex q);
                 st9 =
                   (if isCorrect then
                      (let st2 = st1\<lparr>sessionCorrect := sessionCorrect st1 + 1\<rparr>;
                           newCombo = currentCombo cp + 1;
                           updated0 = cp\<lparr>currentCombo := newCombo,
                                         bestCombo := max (bestCombo cp) newCombo,
                                         totalCorrect := totalCorrect cp + 1\<rparr>;
                           updated1 = (if currentMissionType env = Maths
                                       then updated0\<lparr>mathsCorrect := mathsCorrect updated0 + 1\<rparr>
                                       else updated0);
                           updated2 = (if currentMissionType env = English
                                       then updated1\<lparr>englishCorrect := englishCorrect updated1 + 1\<rparr>
                                       else updated1);
                           updated = (if currentMissionType env = Science
                                      then updated2\<lparr>scienceCorrect := scienceCorrect updated2 + 1\<rparr>
                                      else updated2);
                           st3 = updateProfile env updated st2;
                           st4 = (if currentMissionType env = Maths
                                  then addResources RCrystals 10 env st3 else st3);
                           st5 = (if currentMissionType env = English
                                  then addResources RArtifacts 5 env st4 else st4);
                           st6 = (if currentMissionType env = Science
                                  then addResources RSpecimens 3 env st5 else st5)
                       in addXP 10 env st6)
                    else updateProfile env (cp\<lparr>currentCombo := 0\<rparr>) st1)
             in st9\<lparr>sessionTotal := sessionTotal st9 + 1\<rparr>)
      | _ \<Rightarrow> st)"

subsection \<open>Build logic\<close>

text \<open>
  In the three purchase handlers \<open>now\<close> is \<open>Date.now()\<close> and \<open>rx\<close>, \<open>ry\<close> are the two
  draws of \<open>Math.random()\<close> that place the new item. The coordinates are computed in
  exact arithmetic, where the code rounds to doubles; no property below depends on them.
\<close>

definition buyBiome ::
  "BiomeShopItem \<Rightarrow> int \<Rightarrow> rat \<Rightarrow> rat \<Rightarrow> AppState \<Rightarrow> AppState \<Rightarrow> AppState" where
  "buyBiome biome now rx ry env st =
     (case currentProfile env of
        None \<Rightarrow> st
      | Some cp \<Rightarrow>
          if crystals cp < biome_cost_crystals biome \<or> solarEnergy cp < biome_cost_solar biome
          then Alert_alert ''Not enough resources!''
                 ''Complete more missions and outdoor activities.'' st
          else if biome_type biome \<in> set (unlockedBiomes cp)
          then Alert_alert ''Already unlocked!'' ''You already have this biome.'' st
          else
            (let updated = cp
                   \<lparr>crystals := crystals cp - biome_cost_crystals biome,
                    solarEnergy := solarEnergy cp - biome_cost_solar biome,
                    unlockedBiomes := unlockedBiomes cp @ [biome_type biome],
                    planetItems := planetItems cp @
                      [\<lparr>item_id = String now, item_type = KBiome,
                        itemType = IBiome (biome_type biome),
                        position = (rx * 80 + 10, ry * 80 + 10), item_level = 1\<rparr>]\<rparr>
             in Alert_alert ''Biome Unlocked!''
                  (biome_name biome @ '' has been added to your planet!'')
                  (updateProfile env updated st)))"

definition buyStructure ::
  "StructureShopItem \<Rightarrow> int \<Rightarrow> rat \<Rightarrow> rat \<Rightarrow> AppState \<Rightarrow> AppState \<Rightarrow> AppState" where
  "buyStructure structure now rx ry env st =
     (case currentProfile env of
        None \<Rightarrow> st
      | Some cp \<Rightarrow>
          if crystals cp < structure_cost_crystals structure
             \<or> artifacts cp < structure_cost_artifacts structure
          then Alert_alert ''Not enough resources!''
                 ''Complete more missions to earn crystals and artifacts.'' st
          else
            (let updated = cp
                   \<lparr>crystals := crystals cp - structure_cost_crystals structure,
                    artifacts := artifacts cp - structure_cost_artifacts structure,
                    unlockedStructures := unlockedStructures cp @ [structure_type structure],
                    planetItems := planetItems cp @
                      [\<lparr>item_id = String now, item_type = KStructure,
                        itemType = IStructure (structure_type structure),
                        position = (rx * 70 + 15, ry * 70 + 15), item_level = 1\<rparr>]\<rparr>
             in Alert_alert ''Structure Built!''
                  (structure_name structure @ '' has been added to your planet!'')
                  (updateProfile env updated st)))"

definition buyCreature ::
  "CreatureShopItem \<Rightarrow> int \<Rightarrow> rat \<Rightarrow> rat \<Rightarrow> AppState \<Rightarrow> AppState \<Rightarrow> AppState" where
  "buyCreature creature now rx ry env st =
     (case currentProfile env of
        None \<Rightarrow> st
      | Some cp \<Rightarrow>
          if specimens cp < creature_cost_specimens creature
          then Alert_alert ''Not enough specimens!'' ''Complete more science missions.'' st
          else
            (let updated = cp
                   \<lparr>specimens := specimens cp - creature_cost_specimens creature,
                    unlockedCreatures := unlockedCreatures cp @ [creature_type creature],
                    planetItems := planetItems cp @
                      [\<lparr>item_id = String now, item_type = KCreature,
                        itemType = ICreature (creature_type creature),
                        position = (rx * 60 + 20, ry * 60 + 20), item_level = 1\<rparr>]\<rparr>
             in Alert_alert ''Creature Added!''
                  (creature_name creature @ '' now lives on your planet!'')
                  (updateProfile env updated st)))"

subsection \<open>Activity logic\<close>

definition submitActivity ::
  "(string \<Rightarrow> int option) \<Rightarrow> bool \<Rightarrow> int \<Rightarrow> string \<Rightarrow> AppState \<Rightarrow> AppState
     \<Rightarrow> AppState" where
  \<comment> \<open>\<open>parseInt\<close> as in \<open>createProfile\<close>; \<open>now\<close> is \<open>Date.now()\<close> and \<open>nowISO\<close> the ISO
      rendering of the same instant; \<open>stored\<close> is the outcome of the write. An empty
      string is falsy, as \<open>null\<close> is.\<close>
  "submitActivity parseInt stored now nowISO env st =
     (case (selectedActivity env, currentProfile env) of
        (Some sel, Some cp) \<Rightarrow>
          if sel = [] \<or> activityMinutes env = [] then st
          else
            (case parseInt (activityMinutes env) of
               None \<Rightarrow> Alert_alert ''Oops!'' ''Please enter valid minutes (1-180)'' st
             | Some m \<Rightarrow>
                 if m \<le> 0 \<or> m > 180
                 then Alert_alert ''Oops!'' ''Please enter valid minutes (1-180)'' st
                 else
                   (case find_first (\<lambda>a. act_id a = sel) ACTIVITIES of
                      None \<Rightarrow> st
                    | Some activityType \<Rightarrow>
                        (let activity =
                               \<lparr>activity_id = String now,
                                activity_name = act_name activityType,
                                minutes = m,
                                activity_solarEnergy =
                                  Math_round (of_int m * of_int (solarPerMin activityType)),
                                date = nowISO\<rparr>;
                             st1 = savePendingActivities stored
                                     (pendingActivities env @ [activity]) st;
                             st2 = st1\<lparr>selectedActivity := None, activityMinutes := [],
                                       showActivityModal := False\<rparr>
                         in Alert_alert ''Activity Logged!''
                              (''Ask a parent to verify to earn ''
                                 @ String (activity_solarEnergy activity) @ '' Solar Energy!'')
                              st2)))
      | _ \<Rightarrow> st)"

definition verifyActivity :: "bool \<Rightarrow> string \<Rightarrow> AppState \<Rightarrow> AppState \<Rightarrow> AppState" where
  "verifyActivity stored activityId env st =
     (case (find_first (\<lambda>a. activity_id a = activityId) (pendingActivities env),
            currentProfile env) of
        (Some activity, Some cp) \<Rightarrow>
          (let updated = cp
                 \<lparr>solarEnergy := solarEnergy cp + activity_solarEnergy activity,
                  offScreenMinutes := offScreenMinutes cp + minutes activity\<rparr>;
               st1 = updateProfile env updated st
           in savePendingActivities stored
                (filter (\<lambda>a. activity_id a \<noteq> activityId) (pendingActivities env)) st1)
      | _ \<Rightarrow> st)"

text \<open>
  The rejection button of the parent screen has its handler inline:
  \<open>savePendingActivities(pendingActivities.filter(a => a.id !== activity.id))\<close>.
\<close>

definition rejectActivity :: "bool \<Rightarrow> string \<Rightarrow> AppState \<Rightarrow> AppState \<Rightarrow> AppState" where
  "rejectActivity stored activityId env st =
     savePendingActivities stored
       (filter (\<lambda>a. activity_id a \<noteq> activityId) (pendingActivities env)) st"

subsection \<open>Events\<close>

text \<open>
  What the user can do, one constructor per control of the screens, each with the
  platform inputs its handler consumes (clock, random source, parsing functions, outcome
  of the write to storage). Lists
  on screen are addressed by position: the profile cards, the shop entries and the
  pending activities are rendered with \<open>map\<close> and pass their own element to the
  handler. \<open>Relaunch\<close> restarts the application, which loads the two saved lists.
\<close>

datatype Event =
    Navigate Screen
  | SetNewName string
  | SetNewAge string
  | CreateProfile "string \<Rightarrow> string" "string \<Rightarrow> int option" int string string
  | SelectProfile nat string string
  | StartMission MissionType "nat \<Rightarrow> int \<Rightarrow> int" "int list \<Rightarrow> int list" "Question option"
  | NextQuestion "nat \<Rightarrow> int \<Rightarrow> int" "int list \<Rightarrow> int list" "Question option"
  | AnswerQuestion int
  | BuyBiome nat int rat rat
  | BuyStructure nat int rat rat
  | BuyCreature nat int rat rat
  | SetSelectedActivity string
  | SetActivityMinutes string
  | CancelActivity
  | SubmitActivity "string \<Rightarrow> int option" bool int string
  | VerifyActivity bool nat
  | RejectActivity bool nat
  | Relaunch

text \<open>
  One event, run by the handler of the current render: it reads and writes the same
  state. \<open>None\<close> is an event that the screen does not offer (a position outside its
  list) or a handler that does not return.
\<close>

fun step :: "Event \<Rightarrow> AppState \<Rightarrow> AppState option" where
  "step (Navigate sc) s = Some (s\<lparr>screen := sc\<rparr>)"
| "step (SetNewName t) s = Some (s\<lparr>newName := t\<rparr>)"
| "step (SetNewAge t) s = Some (s\<lparr>newAge := t\<rparr>)"
| "step (CreateProfile trim parseInt now today yesterday) s =
     Some (createProfile trim parseInt now today yesterday s s)"
| "step (SelectProfile i today yesterday) s =
     (if i < length (profiles s)
      then Some (selectProfile (profiles s ! i) today yesterday s s) else None)"
| "step (StartMission type rnd srt other) s = startMission rnd srt other type s s"
| "step (NextQuestion rnd srt other) s =
     generateQuestion rnd srt other (currentMissionType s) s s"
| "step (AnswerQuestion index) s = Some (answerQuestion index s s)"
| "step (BuyBiome i now rx ry) s =
     (if i < length BIOME_SHOP
      then Some (buyBiome (BIOME_SHOP ! i) now rx ry s s) else None)"
| "step (BuyStructure i now rx ry) s =
     (if i < length STRUCTURE_SHOP
      then Some (buyStructure (STRUCTURE_SHOP ! i) now rx ry s s) else None)"
| "step (BuyCreature i now rx ry) s =
     (if i < length CREATURE_SHOP
      then Some (buyCreature (CREATURE_SHOP ! i) now rx ry s s) else None)"
| "step (SetSelectedActivity a) s = Some (s\<lparr>selectedActivity := Some a\<rparr>)"
| "step (SetActivityMinutes t) s = Some (s\<lparr>activityMinutes := t\<rparr>)"
| "step CancelActivity s =
     Some (s\<lparr>showActivityModal := False, selectedActivity := None, activityMinutes := []\<rparr>)"
| "step (SubmitActivity parseInt stored now nowISO) s =
     Some (submitActivity parseInt stored now nowISO s s)"
| "step (VerifyActivity stored i) s =
     (if i < length (pendingActivities s)
      then Some (verifyActivity stored (activity_id (pendingActivities s ! i)) s s) else None)"
| "step (RejectActivity stored i) s =
     (if i < length (pendingActivities s)
      then Some (rejectActivity stored (activity_id (pendingActivities s ! i)) s s) else None)"
| "step Relaunch s =
     Some (initialState\<lparr>profiles := profiles s, pendingActivities := pendingActivities s\<rparr>)"

fun run :: "Event list \<Rightarrow> AppState \<Rightarrow> AppState option" where
  "run [] s = Some s"
| "run (e # es) s = (case step e s of None \<Rightarrow> None | Some s' \<Rightarrow> run es s')"

definition reachable :: "AppState \<Rightarrow> bool" where
  "reachable s = (\<exists>es. run es initialState = Some s)"

subsection \<open>Invariants\<close>

definition level_ok :: "PlayerProfile \<Rightarrow> bool" where
  "level_ok p = (level p = xp p div 100 + 1)"

definition resources_ok :: "PlayerProfile \<Rightarrow> bool" where
  "resources_ok p =
     (0 \<le> crystals p \<and> 0 \<le> artifacts p \<and> 0 \<le> specimens p \<and> 0 \<le> solarEnergy p)"

definition profile_ok :: "PlayerProfile \<Rightarrow> bool" where
  "profile_ok p = (level_ok p \<and> resources_ok p \<and> 0 \<le> xp p)"

text \<open>
  A pending activity as \<open>submitActivity\<close> makes it: between 1 and 180 minutes, named after
  an entry of \<open>ACTIVITIES\<close>, its reward the minutes times that entry's rate.
\<close>

definition activity_ok :: "PendingActivity \<Rightarrow> bool" where
  "activity_ok a =
     (1 \<le> minutes a \<and> minutes a \<le> 180
      \<and> list_ex (\<lambda>t. activity_name a = act_name t
                      \<and> activity_solarEnergy a = minutes a * solarPerMin t) ACTIVITIES)"

definition state_ok :: "AppState \<Rightarrow> bool" where
  "state_ok s =
     (list_all profile_ok (profiles s)
      \<and> (case currentProfile s of None \<Rightarrow> True | Some p \<Rightarrow> profile_ok p)
      \<and> list_all activity_ok (pendingActivities s))"

subsection \<open>Concrete inputs\<close>

text \<open>
  A fresh seven-year-old's profile on an arithmetic question, and the same player later:
  three correct answers in a row, five XP short of level 2, on an English mission.
\<close>

definition demoProfile :: PlayerProfile where
  "demoProfile = createDefaultProfile ''Ada'' 7 1000 ''2024-01-02''"

definition demoQuestion :: Question where
  "demoQuestion =
     \<lparr>question = ''2 + 3 = ?'', options = [''5'', ''4'', ''7'', ''3''], correctIndex = 0\<rparr>"

definition demoState :: AppState where
  "demoState = initialState\<lparr>screen := SMissionPlay, profiles := [demoProfile],
      currentProfile := Some demoProfile, currentQuestion := Some demoQuestion\<rparr>"

definition comboProfile :: PlayerProfile where
  "comboProfile = demoProfile\<lparr>currentCombo := 3, xp := 95\<rparr>"

definition comboState :: AppState where
  "comboState = demoState\<lparr>profiles := [comboProfile], currentProfile := Some comboProfile,
     currentMissionType := English\<rparr>"

text \<open>The same player in the shop, already owning a house and a space blob.\<close>

definition builderProfile :: PlayerProfile where
  "builderProfile = demoProfile\<lparr>crystals := 100, artifacts := 20, specimens := 30,
     unlockedStructures := [House], unlockedCreatures := [Blob]\<rparr>"

definition builderState :: AppState where
  "builderState = demoState\<lparr>screen := SBuild, profiles := [builderProfile],
     currentProfile := Some builderProfile\<rparr>"

text \<open>
  A session from the first launch: a profile is created, an English mission started and
  its question answered correctly, a magic tree bought, and half an hour of outdoor play
  logged. \<open>demoParseInt\<close> is \<open>parseInt\<close> on the two texts typed. \<open>playedState\<close> is the
  state the session ends in.
\<close>

definition demoParseInt :: "string \<Rightarrow> int option" where
  "demoParseInt t = (if t = ''7'' then Some 7 else if t = ''30'' then Some 30 else None)"

definition demoEvents :: "Event list" where
  "demoEvents =
     [SetNewName ''Ada'', SetNewAge ''7'',
      CreateProfile (\<lambda>t. t) demoParseInt 1000 ''2024-01-02'' ''2024-01-01'',
      StartMission English (\<lambda>_ _. 0) (\<lambda>xs. xs) (Some demoQuestion),
      AnswerQuestion 0,
      BuyStructure 1 2000 (1 / 2) (1 / 4),
      SetSelectedActivity ''outdoor'', SetActivityMinutes ''30'',
      SubmitActivity demoParseInt True 3000 ''2024-01-02T10:00:00.000Z'']"

definition playedProfile :: PlayerProfile where
  "playedProfile = demoProfile
     \<lparr>crystals := 35, artifacts := 7, xp := 10,
      planetItems := planetItems demoProfile @
        [\<lparr>item_id = String 2000, item_type = KStructure, itemType = IStructure Tree,
          position = (50, 65 / 2), item_level = 1\<rparr>],
      unlockedStructures := [Tree]\<rparr>"

definition playedActivity :: PendingActivity where
  "playedActivity =
     \<lparr>activity_id = String 3000, activity_name = ''Played Outside'', minutes = 30,
      activity_solarEnergy = 90, date = ''2024-01-02T10:00:00.000Z''\<rparr>"

definition playedState :: AppState where
  "playedState = initialState
     \<lparr>screen := SMissionPlay, currentMissionType := English,
      currentProfile := Some playedProfile,
      currentQuestion := Some demoQuestion,
      selectedAnswer := Some 0, isAnswered := True, sessionCorrect := 1, sessionTotal := 1,
      pendingActivities := [playedActivity],
      showReward := Some (RArtifacts, 5),
      alerts := [(''Structure Built!'', ''Magic Tree has been added to your planet!''),
                 (''Activity Logged!'',
                  ''Ask a parent to verify to earn '' @ String 90 @ '' Solar Energy!'')]\<rparr>"

text \<open>
  The session continued: a second activity, seven minutes of reading, is logged within
  the same millisecond of the clock as the first, so that both carry the same id.
\<close>

definition twinEvents :: "Event list" where
  "twinEvents = demoEvents @
     [SetSelectedActivity ''reading'', SetActivityMinutes ''7'',
      SubmitActivity demoParseInt True 3000 ''2024-01-02T10:00:00.000Z'']"

definition twinActivity :: PendingActivity where
  "twinActivity =
     \<lparr>activity_id = String 3000, activity_name = ''Read a Book'', minutes = 7,
      activity_solarEnergy = 14, date = ''2024-01-02T10:00:00.000Z''\<rparr>"

definition twinState :: AppState where
  "twinState = playedState
     \<lparr>pendingActivities := [playedActivity, twinActivity],
      alerts := alerts playedState @
        [(''Activity Logged!'',
          ''Ask a parent to verify to earn '' @ String 14 @ '' Solar Energy!'')]\<rparr>"

text \<open>
  A run of the random source whose draws cycle through 0, 1/8, ..., 7/8. The product of
  such a draw and a small whole number is exact in doubles, so its floor is the whole
  part of the exact product.
\<close>

definition demoRnd :: "nat \<Rightarrow> int \<Rightarrow> int" where
  "demoRnd k n = (int (k mod 8) * n) div 8"

section \<open>Properties\<close>

subsection \<open>The combo multiplier\<close>

text \<open>
  Claim C5. The combo multiplier is monotonic non-decreasing in the combo value (shown
  for all integers, the natural numbers among them), and it is exactly 1 at combo 0,
  1.5 at 3, 2 at 5, 3 at 7 and 5 at 10.
\<close>

theorem getComboMultiplier_mono_table:
  "(\<forall>c d. c \<le> d \<longrightarrow> getComboMultiplier c \<le> getComboMultiplier d)
   \<and> getComboMultiplier 0 = 1
   \<and> getComboMultiplier 3 = 3 / 2
   \<and> getComboMultiplier 5 = 2
   \<and> getComboMultiplier 7 = 3
   \<and> getComboMultiplier 10 = 5"
  by (simp add: getComboMultiplier_def)

theorem getComboMultiplier_mono_table_witness:
  "(4::int) \<le> 8 \<and> getComboMultiplier 4 \<le> getComboMultiplier 8
   \<and> getComboMultiplier 4 = 3 / 2 \<and> getComboMultiplier 8 = 3"
  using getComboMultiplier_mono_table by (simp add: getComboMultiplier_def)

subsection \<open>What a handler leaves in the profile cell\<close>

lemmas demo_defs = demoState_def demoProfile_def demoQuestion_def comboState_def
  comboProfile_def initialState_def createDefaultProfile_def

lemma updateProfile_cur: "currentProfile (updateProfile env p st) = Some p"
  by (simp add: updateProfile_def saveProfiles_def Let_def)

lemma Alert_alert_cur: "currentProfile (Alert_alert t m st) = currentProfile st"
  by (simp add: Alert_alert_def)

lemma floor_div_100: "\<lfloor>(of_int n :: rat) / 100\<rfloor> = n div 100"
  using floor_divide_of_int_eq[where ?'a=rat, of n 100] by simp

lemma addXP_cur:
  "currentProfile env = Some cp \<Longrightarrow>
   currentProfile (addXP amount env st) =
     Some (if (xp cp + amount) div 100 + 1 > level cp
           then cp\<lparr>xp := xp cp + amount, level := (xp cp + amount) div 100 + 1,
                   crystals := crystals cp + 25 * ((xp cp + amount) div 100 + 1),
                   solarEnergy := solarEnergy cp + 10 * ((xp cp + amount) div 100 + 1)\<rparr>
           else cp\<lparr>xp := xp cp + amount, level := (xp cp + amount) div 100 + 1\<rparr>)"
  by (simp add: addXP_def Let_def updateProfile_cur Math_floor_def XP_PER_LEVEL_def
      floor_div_100)



text \<open>
  A correct answer calls \<open>updateProfile\<close>, \<open>addResources\<close> and \<open>addXP\<close> in turn. Each
  builds its profile from the one the render captured and sets the cell, so the cell
  ends with what \<open>addXP\<close> put there.
\<close>

lemma answerQuestion_correct_cur:
  "currentQuestion s = Some q \<Longrightarrow> currentProfile s = Some cp \<Longrightarrow> \<not> isAnswered s \<Longrightarrow>
   currentProfile (answerQuestion (correctIndex q) s s) = currentProfile (addXP 10 s s)"
  by (simp add: answerQuestion_def Let_def addXP_def updateProfile_cur)

lemma answerQuestion_wrong_cur:
  "currentQuestion s = Some q \<Longrightarrow> currentProfile s = Some cp \<Longrightarrow> \<not> isAnswered s \<Longrightarrow>
   index \<noteq> correctIndex q \<Longrightarrow>
   currentProfile (answerQuestion index s s) = Some (cp\<lparr>currentCombo := 0\<rparr>)"
  by (simp add: answerQuestion_def Let_def updateProfile_cur)

subsection \<open>Answering a question\<close>

text \<open>
  Claim C1. A correct answer should raise the combo counter by one, credit the subject's
  resource by the base reward times the combo multiplier and grant XP; a wrong answer
  resets the combo and credits nothing. The code computes the first two and then
  overwrites them: on the fresh profile (combo 0, 50 crystals) a correct answer to an
  arithmetic question leaves combo 0 and 50 crystals, and only the 10 XP arrive, although
  the reward popup announces 10 crystals. The other half holds: a wrong answer at combo 3
  leaves the profile as it was but for combo 0.
\<close>

theorem answerQuestion_correct_drops_combo_and_reward:
  "currentProfile (answerQuestion 0 demoState demoState) = Some (demoProfile\<lparr>xp := 10\<rparr>)
   \<and> currentCombo (demoProfile\<lparr>xp := 10\<rparr>) = 0
   \<and> crystals (demoProfile\<lparr>xp := 10\<rparr>) = 50
   \<and> currentMissionType demoState = Maths
   \<and> correctIndex demoQuestion = 0
   \<and> showReward (answerQuestion 0 demoState demoState) = Some (RCrystals, 10)
   \<and> currentProfile (answerQuestion 1 comboState comboState)
       = Some (comboProfile\<lparr>currentCombo := 0\<rparr>)"
proof -
  have w: "currentProfile (answerQuestion 1 comboState comboState)
       = Some (comboProfile\<lparr>currentCombo := 0\<rparr>)"
    by (rule answerQuestion_wrong_cur[of comboState demoQuestion]) (simp_all add: demo_defs)
  have q: "currentQuestion demoState = Some demoQuestion"
    and p: "currentProfile demoState = Some demoProfile"
    and a: "\<not> isAnswered demoState"
    by (simp_all add: demoState_def initialState_def)
  have "currentProfile (answerQuestion (correctIndex demoQuestion) demoState demoState)
        = currentProfile (addXP 10 demoState demoState)"
    by (rule answerQuestion_correct_cur[OF q p a])
  moreover have "correctIndex demoQuestion = 0" by (simp add: demoQuestion_def)
  moreover have "currentProfile (addXP 10 demoState demoState) = Some (demoProfile\<lparr>xp := 10\<rparr>)"
    by (simp add: addXP_cur[OF p]) (simp add: demoProfile_def createDefaultProfile_def)
  moreover have "showReward (answerQuestion 0 demoState demoState) = Some (RCrystals, 10)"
    by (simp add: answerQuestion_def Let_def demoState_def initialState_def demoQuestion_def
        addXP_def addResources_def updateProfile_def saveProfiles_def getComboMultiplier_def
        Math_floor_def demoProfile_def createDefaultProfile_def XP_PER_LEVEL_def)
  ultimately show ?thesis
    using w by (simp add: demoProfile_def createDefaultProfile_def demoState_def initialState_def)
qed

subsection \<open>Experience and levels\<close>

text \<open>
  Claim C9. A correct answer grants 10 XP whatever the subject. An XP grant that raises
  the level (the new level exceeds the stored one) credits 25 times the new level in
  crystals and 10 times the new level in solar energy; a grant that does not raise the
  level leaves crystals and solar energy as they were.
\<close>

theorem addXP_flat_and_bonus:
  "currentProfile s = Some cp \<Longrightarrow>
   (currentQuestion s = Some q \<and> \<not> isAnswered s \<longrightarrow>
      (\<exists>p'. currentProfile (answerQuestion (correctIndex q) s s) = Some p'
            \<and> xp p' = xp cp + 10))
   \<and> (\<exists>p'. currentProfile (addXP amount s s) = Some p'
         \<and> xp p' = xp cp + amount
         \<and> level p' = \<lfloor>(of_int (xp cp + amount) :: rat) / 100\<rfloor> + 1
         \<and> (if level p' > level cp
             then crystals p' = crystals cp + 25 * level p'
                  \<and> solarEnergy p' = solarEnergy cp + 10 * level p'
             else crystals p' = crystals cp \<and> solarEnergy p' = solarEnergy cp)
         \<and> artifacts p' = artifacts cp \<and> specimens p' = specimens cp)"
proof -
  assume p: "currentProfile s = Some cp"
  have a: "currentQuestion s = Some q \<and> \<not> isAnswered s \<longrightarrow>
      (\<exists>p'. currentProfile (answerQuestion (correctIndex q) s s) = Some p'
            \<and> xp p' = xp cp + 10)"
    using answerQuestion_correct_cur[of s q cp] p addXP_cur[OF p, of 10 s] by auto
  have b: "\<exists>p'. currentProfile (addXP amount s s) = Some p'
         \<and> xp p' = xp cp + amount
         \<and> level p' = \<lfloor>(of_int (xp cp + amount) :: rat) / 100\<rfloor> + 1
         \<and> (if level p' > level cp
             then crystals p' = crystals cp + 25 * level p'
                  \<and> solarEnergy p' = solarEnergy cp + 10 * level p'
             else crystals p' = crystals cp \<and> solarEnergy p' = solarEnergy cp)
         \<and> artifacts p' = artifacts cp \<and> specimens p' = specimens cp"
    unfolding floor_div_100 using addXP_cur[OF p, of amount s] by auto
  show ?thesis using a b by blast
qed

theorem addXP_flat_and_bonus_witness:
  "currentProfile comboState = Some comboProfile
   \<and> currentQuestion comboState = Some demoQuestion
   \<and> \<not> isAnswered comboState
   \<and> xp comboProfile = 95 \<and> level comboProfile = 1 \<and> crystals comboProfile = 50
   \<and> currentProfile (answerQuestion (correctIndex demoQuestion) comboState comboState)
       = Some (comboProfile\<lparr>xp := 105, level := 2, crystals := 100, solarEnergy := 50\<rparr>)
   \<and> currentProfile (addXP 10 comboState comboState)
       = Some (comboProfile\<lparr>xp := 105, level := 2, crystals := 100, solarEnergy := 50\<rparr>)"
proof -
  have p: "currentProfile comboState = Some comboProfile"
    and q: "currentQuestion comboState = Some demoQuestion"
    and a: "\<not> isAnswered comboState"
    by (simp_all add: demo_defs)
  have v: "xp comboProfile = 95" "level comboProfile = 1" "crystals comboProfile = 50"
    by (simp_all add: demo_defs)
  have x: "currentProfile (addXP 10 comboState comboState)
       = Some (comboProfile\<lparr>xp := 105, level := 2, crystals := 100, solarEnergy := 50\<rparr>)"
    by (simp add: addXP_cur[OF p]) (simp add: demo_defs)
  have y: "currentProfile (answerQuestion (correctIndex demoQuestion) comboState comboState)
       = currentProfile (addXP 10 comboState comboState)"
    by (rule answerQuestion_correct_cur[OF q p a])
  show ?thesis using addXP_flat_and_bonus[OF p, of demoQuestion 10] p q a v x y by simp
qed

subsection \<open>Resource rewards\<close>

lemma getComboMultiplier_pos: "1 \<le> getComboMultiplier c"
  by (simp add: getComboMultiplier_def)

lemma reward_nonneg: "0 \<le> b \<Longrightarrow> 0 \<le> Math_floor (of_int b * getComboMultiplier c)"
proof -
  assume "0 \<le> b"
  moreover have "0 \<le> getComboMultiplier c" using getComboMultiplier_pos[of c] by linarith
  ultimately have "0 \<le> (of_int b :: rat) * getComboMultiplier c" by simp
  then show ?thesis by (simp add: Math_floor_def)
qed



subsection \<open>Purchases\<close>

lemma count_list_snoc: "count_list (xs @ [x]) x = count_list xs x + 1"
  by (induction xs) auto

lemma count_list_pos: "x \<in> set xs \<Longrightarrow> 1 \<le> count_list xs x"
  by (induction xs) auto

text \<open>
  Claim C3, as stated: a purchase with a resource below its cost reports an error and
  changes nothing, and every other purchase debits the costs and appends one planet
  item. The second half fails for a biome the profile already owns: the fresh profile
  can afford the grassland (cost 0 and 0) and owns it, and the purchase is turned away
  with nothing appended.
\<close>

theorem buyBiome_owned_affordable_counterexample:
  "currentProfile demoState = Some demoProfile
   \<and> biome_cost_crystals (BIOME_SHOP ! 0) \<le> crystals demoProfile
   \<and> biome_cost_solar (BIOME_SHOP ! 0) \<le> solarEnergy demoProfile
   \<and> buyBiome (BIOME_SHOP ! 0) 2000 (1 / 2) (1 / 2) demoState demoState
       = Alert_alert ''Already unlocked!'' ''You already have this biome.'' demoState
   \<and> planetItems (the (currentProfile
        (buyBiome (BIOME_SHOP ! 0) 2000 (1 / 2) (1 / 2) demoState demoState)))
       = planetItems demoProfile"
proof -
  have p: "currentProfile demoState = Some demoProfile" by (simp add: demo_defs)
  have c: "biome_cost_crystals (BIOME_SHOP ! 0) \<le> crystals demoProfile"
    "biome_cost_solar (BIOME_SHOP ! 0) \<le> solarEnergy demoProfile"
    by (simp_all add: demo_defs BIOME_SHOP_def)
  have u: "biome_type (BIOME_SHOP ! 0) \<in> set (unlockedBiomes demoProfile)"
    by (simp add: demo_defs BIOME_SHOP_def)
  have e: "buyBiome (BIOME_SHOP ! 0) 2000 (1 / 2) (1 / 2) demoState demoState
       = Alert_alert ''Already unlocked!'' ''You already have this biome.'' demoState"
    using c u by (simp add: buyBiome_def p)
  show ?thesis using p c e by (simp add: Alert_alert_cur)
qed

text \<open>
  Claim C3, amended. With a resource below its cost the purchase reports an error and
  the state is the old one but for the alert. Otherwise a biome that is already unlocked
  is turned away in the same way, and every other purchase debits exactly the listed
  costs, appends the type to its unlock list and appends exactly one planet item.
\<close>

theorem purchase_checks_then_debits:
  "currentProfile s = Some p \<Longrightarrow>
   (if crystals p < biome_cost_crystals b \<or> solarEnergy p < biome_cost_solar b
    then buyBiome b now rx ry s s
           = Alert_alert ''Not enough resources!''
               ''Complete more missions and outdoor activities.'' s
    else if biome_type b \<in> set (unlockedBiomes p)
    then buyBiome b now rx ry s s
           = Alert_alert ''Already unlocked!'' ''You already have this biome.'' s
    else currentProfile (buyBiome b now rx ry s s)
           = Some (p\<lparr>crystals := crystals p - biome_cost_crystals b,
                     solarEnergy := solarEnergy p - biome_cost_solar b,
                     unlockedBiomes := unlockedBiomes p @ [biome_type b],
                     planetItems := planetItems p @
                       [\<lparr>item_id = String now, item_type = KBiome,
                         itemType = IBiome (biome_type b),
                         position = (rx * 80 + 10, ry * 80 + 10), item_level = 1\<rparr>]\<rparr>))
   \<and> (if crystals p < structure_cost_crystals t \<or> artifacts p < structure_cost_artifacts t
      then buyStructure t now rx ry s s
             = Alert_alert ''Not enough resources!''
                 ''Complete more missions to earn crystals and artifacts.'' s
      else currentProfile (buyStructure t now rx ry s s)
             = Some (p\<lparr>crystals := crystals p - structure_cost_crystals t,
                       artifacts := artifacts p - structure_cost_artifacts t,
                       unlockedStructures := unlockedStructures p @ [structure_type t],
                       planetItems := planetItems p @
                         [\<lparr>item_id = String now, item_type = KStructure,
                           itemType = IStructure (structure_type t),
                           position = (rx * 70 + 15, ry * 70 + 15), item_level = 1\<rparr>]\<rparr>))
   \<and> (if specimens p < creature_cost_specimens c
      then buyCreature c now rx ry s s
             = Alert_alert ''Not enough specimens!'' ''Complete more science missions.'' s
      else currentProfile (buyCreature c now rx ry s s)
             = Some (p\<lparr>specimens := specimens p - creature_cost_specimens c,
                       unlockedCreatures := unlockedCreatures p @ [creature_type c],
                       planetItems := planetItems p @
                         [\<lparr>item_id = String now, item_type = KCreature,
                           itemType = ICreature (creature_type c),
                           position = (rx * 60 + 20, ry * 60 + 20), item_level = 1\<rparr>]\<rparr>))"
proof -
  assume p: "currentProfile s = Some p"
  show ?thesis
    by (intro conjI)
       (simp_all add: buyBiome_def buyStructure_def buyCreature_def Let_def Alert_alert_cur
          updateProfile_cur p)
qed

theorem purchase_checks_then_debits_witness:
  "currentProfile demoState = Some demoProfile
   \<and> crystals demoProfile = 50 \<and> solarEnergy demoProfile = 30 \<and> artifacts demoProfile = 10
   \<and> specimens demoProfile = 5
   \<and> buyBiome (BIOME_SHOP ! 2) 2000 (1 / 2) (1 / 4) demoState demoState
       = Alert_alert ''Not enough resources!''
           ''Complete more missions and outdoor activities.'' demoState
   \<and> currentProfile (buyBiome (BIOME_SHOP ! 1) 2000 (1 / 2) (1 / 4) demoState demoState)
       = Some (demoProfile\<lparr>crystals := 0, solarEnergy := 10,
                 unlockedBiomes := [Grass, Forest],
                 planetItems := planetItems demoProfile @
                   [\<lparr>item_id = String 2000, item_type = KBiome, itemType = IBiome Forest,
                     position = (50, 30), item_level = 1\<rparr>]\<rparr>)
   \<and> currentProfile (buyStructure (STRUCTURE_SHOP ! 0) 2000 (1 / 2) (1 / 4) demoState demoState)
       = Some (demoProfile\<lparr>crystals := 30, artifacts := 5,
                 unlockedStructures := [House],
                 planetItems := planetItems demoProfile @
                   [\<lparr>item_id = String 2000, item_type = KStructure, itemType = IStructure House,
                     position = (50, 65 / 2), item_level = 1\<rparr>]\<rparr>)
   \<and> buyCreature (CREATURE_SHOP ! 0) 2000 (1 / 2) (1 / 4) demoState demoState
       = Alert_alert ''Not enough specimens!'' ''Complete more science missions.'' demoState"
proof -
  have p: "currentProfile demoState = Some demoProfile" by (simp add: demo_defs)
  have v: "crystals demoProfile = 50" "solarEnergy demoProfile = 30" "artifacts demoProfile = 10"
    "specimens demoProfile = 5" "unlockedBiomes demoProfile = [Grass]"
    "unlockedStructures demoProfile = []"
    by (simp_all add: demo_defs)
  have 1: "buyBiome (BIOME_SHOP ! 2) 2000 (1 / 2) (1 / 4) demoState demoState
       = Alert_alert ''Not enough resources!''
           ''Complete more missions and outdoor activities.'' demoState"
    using purchase_checks_then_debits[OF p, of "BIOME_SHOP ! 2" 2000 "1/2" "1/4"] v
    by (simp add: BIOME_SHOP_def)
  have 2: "currentProfile (buyBiome (BIOME_SHOP ! 1) 2000 (1 / 2) (1 / 4) demoState demoState)
       = Some (demoProfile\<lparr>crystals := 0, solarEnergy := 10,
                 unlockedBiomes := [Grass, Forest],
                 planetItems := planetItems demoProfile @
                   [\<lparr>item_id = String 2000, item_type = KBiome, itemType = IBiome Forest,
                     position = (50, 30), item_level = 1\<rparr>]\<rparr>)"
    using purchase_checks_then_debits[OF p, of "BIOME_SHOP ! 1" 2000 "1/2" "1/4"] v
    by (simp add: BIOME_SHOP_def)
  have 3: "currentProfile (buyStructure (STRUCTURE_SHOP ! 0) 2000 (1 / 2) (1 / 4) demoState demoState)
       = Some (demoProfile\<lparr>crystals := 30, artifacts := 5,
                 unlockedStructures := [House],
                 planetItems := planetItems demoProfile @
                   [\<lparr>item_id = String 2000, item_type = KStructure, itemType = IStructure House,
                     position = (50, 65 / 2), item_level = 1\<rparr>]\<rparr>)"
    using purchase_checks_then_debits[OF p, of _ _ _ _ "STRUCTURE_SHOP ! 0"] v
    by (simp add: STRUCTURE_SHOP_def)
  have 4: "buyCreature (CREATURE_SHOP ! 0) 2000 (1 / 2) (1 / 4) demoState demoState
       = Alert_alert ''Not enough specimens!'' ''Complete more science missions.'' demoState"
    using purchase_checks_then_debits[OF p, of _ _ _ _ _ "CREATURE_SHOP ! 0"] v
    by (simp add: CREATURE_SHOP_def)
  show ?thesis using p v 1 2 3 4 by simp
qed


text \<open>
  Claim C8. Buying a biome that is already unlocked is rejected and changes nothing but
  the alert log. Buying a structure or creature that is already unlocked is not
  rejected: whenever it is affordable the costs are debited again and the type is
  appended once more, so that it stands at least twice in the unlock list.
\<close>

theorem repeat_purchase:
  "currentProfile s = Some p \<Longrightarrow>
   (biome_type b \<in> set (unlockedBiomes p) \<longrightarrow>
      (\<exists>title message. buyBiome b now rx ry s s = Alert_alert title message s))
   \<and> (structure_type t \<in> set (unlockedStructures p)
       \<and> structure_cost_crystals t \<le> crystals p
       \<and> structure_cost_artifacts t \<le> artifacts p \<longrightarrow>
      (\<exists>p'. currentProfile (buyStructure t now rx ry s s) = Some p'
         \<and> crystals p' = crystals p - structure_cost_crystals t
         \<and> artifacts p' = artifacts p - structure_cost_artifacts t
         \<and> unlockedStructures p' = unlockedStructures p @ [structure_type t]
         \<and> 2 \<le> count_list (unlockedStructures p') (structure_type t)
         \<and> length (planetItems p') = length (planetItems p) + 1))
   \<and> (creature_type c \<in> set (unlockedCreatures p)
       \<and> creature_cost_specimens c \<le> specimens p \<longrightarrow>
      (\<exists>p'. currentProfile (buyCreature c now rx ry s s) = Some p'
         \<and> specimens p' = specimens p - creature_cost_specimens c
         \<and> unlockedCreatures p' = unlockedCreatures p @ [creature_type c]
         \<and> 2 \<le> count_list (unlockedCreatures p') (creature_type c)
         \<and> length (planetItems p') = length (planetItems p) + 1))"
proof -
  assume p: "currentProfile s = Some p"
  have B: "biome_type b \<in> set (unlockedBiomes p) \<longrightarrow>
      (\<exists>title message. buyBiome b now rx ry s s = Alert_alert title message s)"
    by (auto simp add: buyBiome_def p)
  have S: "structure_type t \<in> set (unlockedStructures p)
       \<and> structure_cost_crystals t \<le> crystals p
       \<and> structure_cost_artifacts t \<le> artifacts p \<longrightarrow>
      (\<exists>p'. currentProfile (buyStructure t now rx ry s s) = Some p'
         \<and> crystals p' = crystals p - structure_cost_crystals t
         \<and> artifacts p' = artifacts p - structure_cost_artifacts t
         \<and> unlockedStructures p' = unlockedStructures p @ [structure_type t]
         \<and> 2 \<le> count_list (unlockedStructures p') (structure_type t)
         \<and> length (planetItems p') = length (planetItems p) + 1)"
    using count_list_pos[of "structure_type t" "unlockedStructures p"]
    by (simp add: buyStructure_def Let_def Alert_alert_cur updateProfile_cur p count_list_snoc)
  have C: "creature_type c \<in> set (unlockedCreatures p)
       \<and> creature_cost_specimens c \<le> specimens p \<longrightarrow>
      (\<exists>p'. currentProfile (buyCreature c now rx ry s s) = Some p'
         \<and> specimens p' = specimens p - creature_cost_specimens c
         \<and> unlockedCreatures p' = unlockedCreatures p @ [creature_type c]
         \<and> 2 \<le> count_list (unlockedCreatures p') (creature_type c)
         \<and> length (planetItems p') = length (planetItems p) + 1)"
    using count_list_pos[of "creature_type c" "unlockedCreatures p"]
    by (simp add: buyCreature_def Let_def Alert_alert_cur updateProfile_cur p count_list_snoc)
  show ?thesis using B S C by blast
qed

theorem repeat_purchase_witness:
  "currentProfile builderState = Some builderProfile
   \<and> biome_type (BIOME_SHOP ! 0) \<in> set (unlockedBiomes builderProfile)
   \<and> buyBiome (BIOME_SHOP ! 0) 3000 (1 / 2) (1 / 4) builderState builderState
       = Alert_alert ''Already unlocked!'' ''You already have this biome.'' builderState
   \<and> structure_type (STRUCTURE_SHOP ! 0) \<in> set (unlockedStructures builderProfile)
   \<and> structure_cost_crystals (STRUCTURE_SHOP ! 0) \<le> crystals builderProfile
   \<and> structure_cost_artifacts (STRUCTURE_SHOP ! 0) \<le> artifacts builderProfile
   \<and> crystals (the (currentProfile
        (buyStructure (STRUCTURE_SHOP ! 0) 3000 (1 / 2) (1 / 4) builderState builderState))) = 80
   \<and> unlockedStructures (the (currentProfile
        (buyStructure (STRUCTURE_SHOP ! 0) 3000 (1 / 2) (1 / 4) builderState builderState)))
       = [House, House]
   \<and> creature_type (CREATURE_SHOP ! 0) \<in> set (unlockedCreatures builderProfile)
   \<and> creature_cost_specimens (CREATURE_SHOP ! 0) \<le> specimens builderProfile
   \<and> specimens (the (currentProfile
        (buyCreature (CREATURE_SHOP ! 0) 3000 (1 / 2) (1 / 4) builderState builderState))) = 20
   \<and> unlockedCreatures (the (currentProfile
        (buyCreature (CREATURE_SHOP ! 0) 3000 (1 / 2) (1 / 4) builderState builderState)))
       = [Blob, Blob]"
proof -
  have p: "currentProfile builderState = Some builderProfile"
    by (simp add: builderState_def)
  have v: "unlockedBiomes builderProfile = [Grass]" "unlockedStructures builderProfile = [House]"
    "unlockedCreatures builderProfile = [Blob]" "crystals builderProfile = 100"
    "artifacts builderProfile = 20" "specimens builderProfile = 30"
    "solarEnergy builderProfile = 30"
    by (simp_all add: builderProfile_def demo_defs)
  have b: "buyBiome (BIOME_SHOP ! 0) 3000 (1 / 2) (1 / 4) builderState builderState
       = Alert_alert ''Already unlocked!'' ''You already have this biome.'' builderState"
    by (simp add: buyBiome_def p v BIOME_SHOP_def)
  note r = repeat_purchase[OF p, where b = "BIOME_SHOP ! 0" and t = "STRUCTURE_SHOP ! 0"
      and c = "CREATURE_SHOP ! 0" and now = 3000 and rx = "1 / 2" and ry = "1 / 4"]
  have s: "structure_type (STRUCTURE_SHOP ! 0) = House"
    "structure_cost_crystals (STRUCTURE_SHOP ! 0) = 20"
    "structure_cost_artifacts (STRUCTURE_SHOP ! 0) = 5"
    "creature_type (CREATURE_SHOP ! 0) = Blob" "creature_cost_specimens (CREATURE_SHOP ! 0) = 10"
    "biome_type (BIOME_SHOP ! 0) = Grass"
    by (simp_all add: STRUCTURE_SHOP_def CREATURE_SHOP_def BIOME_SHOP_def)
  show ?thesis using r p b by (auto simp add: v s)
qed

subsection \<open>The invariant of the reachable states\<close>

lemma Math_round_of_int: "Math_round (of_int k) = k"
  unfolding Math_round_def by (simp add: floor_eq_iff)

lemma state_ok_Alert_alert [simp]: "state_ok (Alert_alert t m st) = state_ok st"
  by (simp add: state_ok_def Alert_alert_def)

lemma updateProfile_ok:
  "state_ok env \<Longrightarrow> state_ok st \<Longrightarrow> profile_ok p \<Longrightarrow> state_ok (updateProfile env p st)"
  by (auto simp add: state_ok_def updateProfile_def saveProfiles_def Let_def list_all_iff)

lemma updateProfile_pending [simp]:
  "pendingActivities (updateProfile env p st) = pendingActivities st"
  by (simp add: updateProfile_def saveProfiles_def Let_def)

lemma state_ok_current: "state_ok s \<Longrightarrow> currentProfile s = Some p \<Longrightarrow> profile_ok p"
  by (simp add: state_ok_def)

lemma addXP_ok:
  assumes "state_ok env" "state_ok st" "0 \<le> amount"
  shows "state_ok (addXP amount env st)"
proof (cases "currentProfile env")
  case None
  then show ?thesis using assms by (simp add: addXP_def)
next
  case (Some cp)
  then have ok: "profile_ok cp" using assms(1) by (rule state_ok_current[rotated])
  then have x: "0 \<le> xp cp + amount" using assms(3) by (simp add: profile_ok_def)
  then have l: "1 \<le> (xp cp + amount) div 100 + 1"
    by (simp add: pos_imp_zdiv_nonneg_iff)
  have st': "state_ok (st\<lparr>showLevelUp := True\<rparr>)" using assms(2) by (simp add: state_ok_def)
  have p1: "profile_ok (cp\<lparr>xp := xp cp + amount, level := (xp cp + amount) div 100 + 1\<rparr>)"
    using ok x by (simp add: profile_ok_def level_ok_def resources_ok_def)
  have p2: "profile_ok (cp\<lparr>xp := xp cp + amount, level := (xp cp + amount) div 100 + 1,
                   crystals := crystals cp + 25 * ((xp cp + amount) div 100 + 1),
                   solarEnergy := solarEnergy cp + 10 * ((xp cp + amount) div 100 + 1)\<rparr>)"
    using ok x l by (simp add: profile_ok_def level_ok_def resources_ok_def)
  show ?thesis
    using Some updateProfile_ok[OF assms(1) st' p2] updateProfile_ok[OF assms(1) assms(2) p1]
    by (simp add: addXP_def Let_def Math_floor_def XP_PER_LEVEL_def floor_div_100)
qed

lemma credit_ok: "profile_ok p \<Longrightarrow> 0 \<le> n \<Longrightarrow> profile_ok (credit type n p)"
  by (cases type) (simp_all add: profile_ok_def level_ok_def resources_ok_def)

lemma addResources_ok:
  assumes "state_ok env" "state_ok st" "0 \<le> baseAmount"
  shows "state_ok (addResources type baseAmount env st)"
proof (cases "currentProfile env")
  case None
  then show ?thesis using assms by (simp add: addResources_def)
next
  case (Some cp)
  then have ok: "profile_ok cp" using assms(1) by (rule state_ok_current[rotated])
  have "profile_ok (credit type (Math_floor (of_int baseAmount * getComboMultiplier (currentCombo cp))) cp)"
    using ok reward_nonneg[OF assms(3)] by (rule credit_ok)
  from updateProfile_ok[OF assms(1) assms(2) this] show ?thesis
    using Some by (simp add: addResources_def Let_def state_ok_def)
qed

lemma answerQuestion_ok:
  assumes "state_ok s"
  shows "state_ok (answerQuestion index s s)"
proof (cases "currentQuestion s")
  case None
  then show ?thesis using assms by (simp add: answerQuestion_def)
next
  case q: (Some q)
  show ?thesis
  proof (cases "currentProfile s")
    case None
    then show ?thesis using assms q by (simp add: answerQuestion_def)
  next
    case (Some cp)
    then have ok: "profile_ok cp" using assms by (rule state_ok_current[rotated])
    have tot: "state_ok st \<Longrightarrow> state_ok (st\<lparr>sessionTotal := n\<rparr>)" for st n
      by (simp add: state_ok_def)
    have st1: "state_ok (s\<lparr>selectedAnswer := Some index, isAnswered := True\<rparr>)"
      using assms by (simp add: state_ok_def)
    show ?thesis
    proof (cases "isAnswered s")
      case True
      then show ?thesis using assms q Some by (simp add: answerQuestion_def)
    next
      case na: False
      show ?thesis
      proof (cases "index = correctIndex q")
        case False
        have "profile_ok (cp\<lparr>currentCombo := 0\<rparr>)"
          using ok by (simp add: profile_ok_def level_ok_def resources_ok_def)
        from updateProfile_ok[OF assms st1 this] show ?thesis
          using q Some na False by (simp add: answerQuestion_def Let_def tot)
      next
        case True
        have "\<exists>st. state_ok st \<and> answerQuestion index s s
                = (addXP 10 s st)\<lparr>sessionTotal := sessionTotal (addXP 10 s st) + 1\<rparr>"
        proof -
          let ?st2 = "s\<lparr>selectedAnswer := Some index, isAnswered := True,
                         sessionCorrect := sessionCorrect s + 1\<rparr>"
          have st2: "state_ok ?st2" using assms by (simp add: state_ok_def)
          define upd where "upd = (\<lambda>u::PlayerProfile.
              (if currentMissionType s = Science then u\<lparr>scienceCorrect := scienceCorrect u + 1\<rparr> else u))
             ((if currentMissionType s = English
               then (\<lambda>u::PlayerProfile. u\<lparr>englishCorrect := englishCorrect u + 1\<rparr>) else (\<lambda>u. u))
              ((if currentMissionType s = Maths
                then (\<lambda>u::PlayerProfile. u\<lparr>mathsCorrect := mathsCorrect u + 1\<rparr>) else (\<lambda>u. u))
               (cp\<lparr>currentCombo := currentCombo cp + 1,
                    bestCombo := max (bestCombo cp) (currentCombo cp + 1),
                    totalCorrect := totalCorrect cp + 1\<rparr>)))"
          have "profile_ok upd"
            using ok by (simp add: upd_def profile_ok_def level_ok_def resources_ok_def)
          from updateProfile_ok[OF assms st2 this]
          have st3: "state_ok (updateProfile s upd ?st2)" .
          define st4 where "st4 = (if currentMissionType s = Maths
                                  then addResources RCrystals 10 s (updateProfile s upd ?st2)
                                  else updateProfile s upd ?st2)"
          have s4: "state_ok st4" using st3 addResources_ok[OF assms st3, of 10 RCrystals]
            by (simp add: st4_def)
          define st5 where "st5 = (if currentMissionType s = English
                                  then addResources RArtifacts 5 s st4 else st4)"
          have s5: "state_ok st5" using s4 addResources_ok[OF assms s4, of 5 RArtifacts]
            by (simp add: st5_def)
          define st6 where "st6 = (if currentMissionType s = Science
                                  then addResources RSpecimens 3 s st5 else st5)"
          have s6: "state_ok st6" using s5 addResources_ok[OF assms s5, of 3 RSpecimens]
            by (simp add: st6_def)
          have "answerQuestion index s s
                = (addXP 10 s st6)\<lparr>sessionTotal := sessionTotal (addXP 10 s st6) + 1\<rparr>"
            using q Some na True
            by (simp add: answerQuestion_def Let_def st6_def st5_def st4_def upd_def)
          then show ?thesis using s6 by blast
        qed
        then obtain st where "state_ok st" and
          e: "answerQuestion index s s
                = (addXP 10 s st)\<lparr>sessionTotal := sessionTotal (addXP 10 s st) + 1\<rparr>"
          by blast
        from addXP_ok[OF assms this(1), of 10] show ?thesis
          unfolding e by (simp add: tot)
      qed
    qed
  qed
qed

lemma selectProfile_ok:
  assumes "state_ok env" "state_ok st" "profile_ok profile"
  shows "state_ok (selectProfile profile today yesterday env st)"
proof -
  let ?u = "(if lastActiveDate profile = yesterday
             then profile\<lparr>streak := streak profile + 1\<rparr>
             else if lastActiveDate profile \<noteq> today
             then profile\<lparr>streak := 1\<rparr>
             else profile)\<lparr>lastActiveDate := today\<rparr>"
  have u: "profile_ok ?u"
    using assms(3) by (simp add: profile_ok_def level_ok_def resources_ok_def)
  have "state_ok (st\<lparr>currentProfile := Some ?u\<rparr>)"
    using assms(2) u by (simp add: state_ok_def)
  from updateProfile_ok[OF assms(1) this u]
  have "state_ok ((updateProfile env ?u (st\<lparr>currentProfile := Some ?u\<rparr>))\<lparr>screen := SPlanet\<rparr>)"
    by (simp add: state_ok_def)
  then show ?thesis by (simp add: selectProfile_def Let_def)
qed

lemma createDefaultProfile_ok: "profile_ok (createDefaultProfile name a now today)"
  by (simp add: createDefaultProfile_def profile_ok_def level_ok_def resources_ok_def)

lemma createProfile_ok:
  assumes "state_ok s"
  shows "state_ok (createProfile trim parseInt now today yesterday s s)"
proof -
  have "state_ok (selectProfile (createDefaultProfile n a now today) today yesterday s
          ((saveProfiles (profiles s @ [createDefaultProfile n a now today]) s)
             \<lparr>newName := [], newAge := [], showCreateProfile := False\<rparr>))" for n a
  proof (rule selectProfile_ok[OF assms _ createDefaultProfile_ok])
    show "state_ok ((saveProfiles (profiles s @ [createDefaultProfile n a now today]) s)
             \<lparr>newName := [], newAge := [], showCreateProfile := False\<rparr>)"
      using assms createDefaultProfile_ok[of n a now today]
      by (simp add: state_ok_def saveProfiles_def)
  qed
  then show ?thesis
    using assms by (simp add: createProfile_def Let_def split: option.splits)
qed

lemma generateQuestion_ok:
  "state_ok st \<Longrightarrow> generateQuestion rnd srt other type env st = Some st' \<Longrightarrow> state_ok st'"
  by (auto simp add: generateQuestion_def state_ok_def split: option.splits)

lemma startMission_ok:
  assumes "state_ok s" "startMission rnd srt other type s s = Some s'"
  shows "state_ok s'"
proof -
  let ?st1 = "s\<lparr>currentMissionType := type, sessionCorrect := 0, sessionTotal := 0\<rparr>"
  let ?st2 = "case currentProfile s of None \<Rightarrow> ?st1
              | Some cp \<Rightarrow> updateProfile s (cp\<lparr>currentCombo := 0\<rparr>) ?st1"
  have st1: "state_ok ?st1" using assms(1) by (simp add: state_ok_def)
  have st2: "state_ok ?st2"
  proof (cases "currentProfile s")
    case None
    then show ?thesis using st1 by simp
  next
    case (Some cp)
    then have "profile_ok cp" using assms(1) by (rule state_ok_current[rotated])
    then have "profile_ok (cp\<lparr>currentCombo := 0\<rparr>)"
      by (simp add: profile_ok_def level_ok_def resources_ok_def)
    from updateProfile_ok[OF assms(1) st1 this] show ?thesis using Some by simp
  qed
  from assms(2) obtain st3 where g: "generateQuestion rnd srt other type s ?st2 = Some st3"
    and e: "s' = st3\<lparr>screen := SMissionPlay\<rparr>"
    by (auto simp add: startMission_def Let_def split: option.splits)
  from generateQuestion_ok[OF st2 g] show ?thesis unfolding e by (simp add: state_ok_def)
qed

lemma buyBiome_ok:
  assumes "state_ok s"
  shows "state_ok (buyBiome b now rx ry s s)"
proof (cases "currentProfile s")
  case None
  then show ?thesis using assms by (simp add: buyBiome_def)
next
  case (Some cp)
  then have ok: "profile_ok cp" using assms by (rule state_ok_current[rotated])
  have "\<not> (crystals cp < biome_cost_crystals b \<or> solarEnergy cp < biome_cost_solar b) \<Longrightarrow>
    profile_ok (cp\<lparr>crystals := crystals cp - biome_cost_crystals b,
                    solarEnergy := solarEnergy cp - biome_cost_solar b,
                    unlockedBiomes := ub, planetItems := its\<rparr>)" for ub its
    using ok by (simp add: profile_ok_def level_ok_def resources_ok_def)
  from updateProfile_ok[OF assms assms this] show ?thesis
    using Some assms by (simp add: buyBiome_def Let_def)
qed

lemma buyStructure_ok:
  assumes "state_ok s"
  shows "state_ok (buyStructure b now rx ry s s)"
proof (cases "currentProfile s")
  case None
  then show ?thesis using assms by (simp add: buyStructure_def)
next
  case (Some cp)
  then have ok: "profile_ok cp" using assms by (rule state_ok_current[rotated])
  have "\<not> (crystals cp < structure_cost_crystals b \<or> artifacts cp < structure_cost_artifacts b) \<Longrightarrow>
    profile_ok (cp\<lparr>crystals := crystals cp - structure_cost_crystals b,
                    artifacts := artifacts cp - structure_cost_artifacts b,
                    unlockedStructures := ub, planetItems := its\<rparr>)" for ub its
    using ok by (simp add: profile_ok_def level_ok_def resources_ok_def)
  from updateProfile_ok[OF assms assms this] show ?thesis
    using Some assms by (simp add: buyStructure_def Let_def)
qed

lemma buyCreature_ok:
  assumes "state_ok s"
  shows "state_ok (buyCreature b now rx ry s s)"
proof (cases "currentProfile s")
  case None
  then show ?thesis using assms by (simp add: buyCreature_def)
next
  case (Some cp)
  then have ok: "profile_ok cp" using assms by (rule state_ok_current[rotated])
  have "\<not> specimens cp < creature_cost_specimens b \<Longrightarrow>
    profile_ok (cp\<lparr>specimens := specimens cp - creature_cost_specimens b,
                    unlockedCreatures := ub, planetItems := its\<rparr>)" for ub its
    using ok by (simp add: profile_ok_def level_ok_def resources_ok_def)
  from updateProfile_ok[OF assms assms this] show ?thesis
    using Some assms by (simp add: buyCreature_def Let_def)
qed

lemma find_first_Some: "find_first P xs = Some x \<Longrightarrow> x \<in> set xs \<and> P x"
  by (induction xs) (auto split: if_splits)

lemma submitActivity_ok:
  assumes "state_ok s"
  shows "state_ok (submitActivity parseInt stored now nowISO s s)"
proof -
  have new: "state_ok ((savePendingActivities stored (pendingActivities s @
        [\<lparr>activity_id = i, activity_name = act_name t, minutes = m,
          activity_solarEnergy = Math_round (of_int m * of_int (solarPerMin t)), date = d\<rparr>]) s)
        \<lparr>selectedActivity := None, activityMinutes := [], showActivityModal := False\<rparr>)"
    if "\<not> (m \<le> 0 \<or> m > 180)" and "find_first P ACTIVITIES = Some t" for i t m d P
  proof -
    have "t \<in> set ACTIVITIES" using find_first_Some[OF that(2)] by simp
    moreover have "Math_round (of_int m * of_int (solarPerMin t)) = m * solarPerMin t"
      using Math_round_of_int[of "m * solarPerMin t"] by simp
    ultimately have "activity_ok \<lparr>activity_id = i, activity_name = act_name t, minutes = m,
          activity_solarEnergy = Math_round (of_int m * of_int (solarPerMin t)), date = d\<rparr>"
      using that(1) by (auto simp add: activity_ok_def list_ex_iff)
    then show ?thesis
      using assms by (simp add: state_ok_def savePendingActivities_def)
  qed
  show ?thesis
    using assms new
    by (simp add: submitActivity_def Let_def split: option.splits prod.splits)
qed

lemma verifyActivity_ok:
  assumes "state_ok s"
  shows "state_ok (verifyActivity stored activityId s s)"
proof (cases "find_first (\<lambda>a. activity_id a = activityId) (pendingActivities s)")
  case None
  then show ?thesis using assms by (simp add: verifyActivity_def)
next
  case a: (Some activity)
  show ?thesis
  proof (cases "currentProfile s")
    case None
    then show ?thesis using assms a by (simp add: verifyActivity_def)
  next
    case (Some cp)
    then have ok: "profile_ok cp" using assms by (rule state_ok_current[rotated])
    have "activity \<in> set (pendingActivities s)" using find_first_Some[OF a] by simp
    then have "activity_ok activity" using assms by (simp add: state_ok_def list_all_iff)
    then obtain t where "t \<in> set ACTIVITIES" "1 \<le> minutes activity"
      "activity_solarEnergy activity = minutes activity * solarPerMin t"
      by (auto simp add: activity_ok_def list_ex_iff)
    moreover from this(1) have "0 \<le> solarPerMin t" by (auto simp add: ACTIVITIES_def)
    ultimately have "0 \<le> activity_solarEnergy activity" by simp
    then have "profile_ok (cp\<lparr>solarEnergy := solarEnergy cp + activity_solarEnergy activity,
                  offScreenMinutes := offScreenMinutes cp + minutes activity\<rparr>)"
      using ok by (simp add: profile_ok_def level_ok_def resources_ok_def)
    from updateProfile_ok[OF assms assms this] show ?thesis
      using a Some by (simp add: verifyActivity_def Let_def state_ok_def
          savePendingActivities_def list_all_iff)
  qed
qed

lemma rejectActivity_ok: "state_ok s \<Longrightarrow> state_ok (rejectActivity stored activityId s s)"
  by (simp add: rejectActivity_def state_ok_def savePendingActivities_def list_all_iff)

lemma step_ok:
  assumes "state_ok s" "step e s = Some s'"
  shows "state_ok s'"
proof (cases e)
  case (SelectProfile i today yesterday)
  with assms(2) have i: "i < length (profiles s)"
    and e: "s' = selectProfile (profiles s ! i) today yesterday s s"
    by (auto split: if_splits)
  from i assms(1) have "profile_ok (profiles s ! i)" by (simp add: state_ok_def list_all_length)
  from selectProfile_ok[OF assms(1) assms(1) this] show ?thesis unfolding e .
next
  case (StartMission type rnd srt other)
  with assms show ?thesis by (auto intro: startMission_ok)
next
  case (NextQuestion rnd srt other)
  with assms show ?thesis by (auto intro: generateQuestion_ok)
next
  case Relaunch
  with assms show ?thesis by (auto simp add: state_ok_def initialState_def)
next
  case (CreateProfile trim parseInt now today yesterday)
  with assms show ?thesis by (auto simp add: createProfile_ok)
next
  case (AnswerQuestion index)
  with assms show ?thesis by (auto simp add: answerQuestion_ok)
next
  case (BuyBiome i now rx ry)
  with assms show ?thesis by (auto simp add: buyBiome_ok split: if_splits)
next
  case (BuyStructure i now rx ry)
  with assms show ?thesis by (auto simp add: buyStructure_ok split: if_splits)
next
  case (BuyCreature i now rx ry)
  with assms show ?thesis by (auto simp add: buyCreature_ok split: if_splits)
next
  case (SubmitActivity parseInt stored now nowISO)
  with assms show ?thesis by (auto simp add: submitActivity_ok)
next
  case (VerifyActivity stored i)
  with assms show ?thesis by (auto simp add: verifyActivity_ok split: if_splits)
next
  case (RejectActivity stored i)
  with assms show ?thesis by (auto simp add: rejectActivity_ok split: if_splits)
qed (use assms in \<open>auto simp add: state_ok_def\<close>)

lemma run_ok: "state_ok s \<Longrightarrow> run es s = Some s' \<Longrightarrow> state_ok s'"
proof (induction es arbitrary: s)
  case Nil
  then show ?case by simp
next
  case (Cons e es)
  then show ?case by (auto split: option.splits dest: step_ok)
qed

lemma initialState_ok: "state_ok initialState"
  by (simp add: state_ok_def initialState_def)

lemma reachable_ok: "reachable s \<Longrightarrow> state_ok s"
  unfolding reachable_def using run_ok[OF initialState_ok] by blast

subsection \<open>A session\<close>

lemma floor_rat_numeral_div: "\<lfloor>(numeral a :: rat) / numeral b\<rfloor> = numeral a div numeral b"
  using floor_divide_of_int_eq[of "numeral a" "numeral b", where ?'a = rat] by simp

lemma floor_rat_one_div: "\<lfloor>(1 :: rat) / numeral b\<rfloor> = 1 div numeral b"
  using floor_divide_of_int_eq[of 1 "numeral b", where ?'a = rat] by simp

lemma run_demoEvents: "run demoEvents initialState = Some playedState"
  by (simp add: demoEvents_def initialState_def createProfile_def demoParseInt_def Let_def
    selectProfile_def updateProfile_def saveProfiles_def demoProfile_def createDefaultProfile_def
    startMission_def generateQuestion_def answerQuestion_def demoQuestion_def addResources_def
    addXP_def getComboMultiplier_def Math_floor_def XP_PER_LEVEL_def buyStructure_def
    STRUCTURE_SHOP_def Alert_alert_def submitActivity_def ACTIVITIES_def Math_round_def
    savePendingActivities_def playedState_def playedProfile_def playedActivity_def
    floor_rat_numeral_div floor_rat_one_div)

lemma reachable_playedState: "reachable playedState"
  unfolding reachable_def using run_demoEvents by blast

text \<open>
  Claim C2. In every state the program can reach, every profile (the current one and
  those of the list) has its level equal to the floor of xp / 100, plus 1. In particular
  a newly created profile has xp 0 and level 1, and \<open>addXP\<close> recomputes the level from
  the new XP total.
\<close>

theorem level_follows_xp:
  "(reachable s \<longrightarrow>
      (\<forall>p. currentProfile s = Some p \<or> p \<in> set (profiles s) \<longrightarrow>
           level p = \<lfloor>(of_int (xp p) :: rat) / 100\<rfloor> + 1))
   \<and> xp (createDefaultProfile name a now today) = 0
   \<and> level (createDefaultProfile name a now today) = 1
   \<and> (currentProfile s = Some cp \<longrightarrow>
        (\<exists>p'. currentProfile (addXP amount s s) = Some p'
              \<and> xp p' = xp cp + amount
              \<and> level p' = \<lfloor>(of_int (xp p') :: rat) / 100\<rfloor> + 1))"
proof -
  have 1: "reachable s \<longrightarrow>
      (\<forall>p. currentProfile s = Some p \<or> p \<in> set (profiles s) \<longrightarrow>
           level p = \<lfloor>(of_int (xp p) :: rat) / 100\<rfloor> + 1)"
  proof (intro impI allI)
    fix p
    assume r: "reachable s" and p: "currentProfile s = Some p \<or> p \<in> set (profiles s)"
    have "profile_ok p"
      using reachable_ok[OF r] p by (auto simp add: state_ok_def list_all_iff)
    then show "level p = \<lfloor>(of_int (xp p) :: rat) / 100\<rfloor> + 1"
      by (simp add: profile_ok_def level_ok_def floor_div_100)
  qed
  have 2: "xp (createDefaultProfile name a now today) = 0"
    "level (createDefaultProfile name a now today) = 1"
    by (simp_all add: createDefaultProfile_def)
  have 3: "currentProfile s = Some cp \<longrightarrow>
        (\<exists>p'. currentProfile (addXP amount s s) = Some p'
              \<and> xp p' = xp cp + amount
              \<and> level p' = \<lfloor>(of_int (xp p') :: rat) / 100\<rfloor> + 1)"
    unfolding floor_div_100 using addXP_cur[of s cp amount s] by auto
  show ?thesis using 1 2 3 by blast
qed

theorem level_follows_xp_witness:
  "reachable playedState
   \<and> currentProfile playedState = Some playedProfile
   \<and> xp playedProfile = 10 \<and> level playedProfile = 1
   \<and> level playedProfile = \<lfloor>(of_int (xp playedProfile) :: rat) / 100\<rfloor> + 1
   \<and> currentProfile comboState = Some comboProfile
   \<and> currentProfile (addXP 10 comboState comboState)
       = Some (comboProfile\<lparr>xp := 105, level := 2, crystals := 100, solarEnergy := 50\<rparr>)"
proof -
  have p: "currentProfile playedState = Some playedProfile"
    by (simp add: playedState_def)
  have v: "xp playedProfile = 10" "level playedProfile = 1"
    by (simp_all add: playedProfile_def demo_defs)
  have c: "currentProfile comboState = Some comboProfile" by (simp add: demo_defs)
  have x: "currentProfile (addXP 10 comboState comboState)
       = Some (comboProfile\<lparr>xp := 105, level := 2, crystals := 100, solarEnergy := 50\<rparr>)"
    by (simp add: addXP_cur[OF c]) (simp add: demo_defs)
  show ?thesis
    using level_follows_xp[of playedState "''Ada''" 7 1000 "''2024-01-02''" playedProfile 0]
      reachable_playedState p v c x
    by simp
qed

text \<open>
  Claim C4. After every finite sequence of events from the first launch, the four
  resource counters of every profile are non-negative.
\<close>

theorem resources_never_negative:
  "reachable s \<Longrightarrow> currentProfile s = Some p \<or> p \<in> set (profiles s) \<Longrightarrow>
   0 \<le> crystals p \<and> 0 \<le> artifacts p \<and> 0 \<le> specimens p \<and> 0 \<le> solarEnergy p"
proof -
  assume r: "reachable s" and p: "currentProfile s = Some p \<or> p \<in> set (profiles s)"
  have "profile_ok p"
    using reachable_ok[OF r] p by (auto simp add: state_ok_def list_all_iff)
  then show ?thesis by (simp add: profile_ok_def resources_ok_def)
qed

theorem resources_never_negative_witness:
  "reachable playedState
   \<and> currentProfile playedState = Some playedProfile
   \<and> crystals playedProfile = 35 \<and> artifacts playedProfile = 7
   \<and> specimens playedProfile = 5 \<and> solarEnergy playedProfile = 30
   \<and> 0 \<le> crystals playedProfile \<and> 0 \<le> artifacts playedProfile
   \<and> 0 \<le> specimens playedProfile \<and> 0 \<le> solarEnergy playedProfile"
proof -
  have p: "currentProfile playedState = Some playedProfile"
    by (simp add: playedState_def)
  have v: "crystals playedProfile = 35" "artifacts playedProfile = 7"
    "specimens playedProfile = 5" "solarEnergy playedProfile = 30"
    by (simp_all add: playedProfile_def demo_defs)
  show ?thesis
    using resources_never_negative[OF reachable_playedState, of playedProfile]
      reachable_playedState p v by simp
qed

subsection \<open>Approval and rejection of activities\<close>

lemma find_first_distinct:
  "distinct (map f xs) \<Longrightarrow> a \<in> set xs \<Longrightarrow> find_first (\<lambda>x. f x = f a) xs = Some a"
  by (induction xs) (auto simp add: image_iff)

lemma filter_distinct_remove1:
  "distinct (map f xs) \<Longrightarrow> a \<in> set xs \<Longrightarrow> filter (\<lambda>x. f x \<noteq> f a) xs = remove1 a xs"
proof (induction xs)
  case Nil
  then show ?case by simp
next
  case (Cons x xs)
  show ?case
  proof (cases "x = a")
    case True
    have "filter (\<lambda>y. f y \<noteq> f a) xs = xs"
      using Cons.prems(1) True by (auto simp add: filter_id_conv image_iff)
    then show ?thesis using True by simp
  next
    case False
    then have "a \<in> set xs" using Cons.prems(2) by simp
    moreover from this have "f x \<noteq> f a" using Cons.prems(1) by (auto simp add: image_iff)
    ultimately show ?thesis using Cons False by simp
  qed
qed

lemma ACTIVITIES_rate_by_name:
  "t \<in> set ACTIVITIES \<Longrightarrow> t' \<in> set ACTIVITIES \<Longrightarrow> act_name t = act_name t' \<Longrightarrow>
   solarPerMin t = solarPerMin t'"
  by (auto simp add: ACTIVITIES_def)

lemma find_first_exists: "a \<in> set xs \<Longrightarrow> P a \<Longrightarrow> \<exists>b. find_first P xs = Some b"
  by (induction xs) auto

lemma run_append:
  "run (es @ es') s = (case run es s of None \<Rightarrow> None | Some s' \<Rightarrow> run es' s')"
  by (induction es arbitrary: s) (auto split: option.splits)

lemma run_twinEvents: "run twinEvents initialState = Some twinState"
  unfolding twinEvents_def run_append run_demoEvents
  by (simp add: demoParseInt_def submitActivity_def ACTIVITIES_def Math_round_def
      savePendingActivities_def Alert_alert_def Let_def playedState_def twinState_def
      twinActivity_def playedActivity_def initialState_def floor_rat_numeral_div)

lemma reachable_twinState: "reachable twinState"
  unfolding reachable_def using run_twinEvents by blast

text \<open>
  Claim C7, as stated: for every pending activity the approval adds exactly its minutes
  times its rate to the solar energy and removes it from the queue, and the rejection
  removes it. Two entries with the same id defeat the first part: approving the seven
  minutes of reading (rate 2, reward 14) credits the 90 of the outdoor play that stands
  before it in the queue, and removes both. A failed write to storage defeats the
  removal: the cell is not set, and the entry stays in the queue after the approval or
  the rejection.
\<close>

theorem verifyActivity_counterexample:
  "reachable twinState
   \<and> currentProfile twinState = Some playedProfile
   \<and> pendingActivities twinState = [playedActivity, twinActivity]
   \<and> minutes twinActivity = 7
   \<and> activity_name twinActivity = act_name (ACTIVITIES ! 1)
   \<and> solarPerMin (ACTIVITIES ! 1) = 2
   \<and> solarEnergy playedProfile = 30
   \<and> currentProfile (verifyActivity True (activity_id twinActivity) twinState twinState)
       = Some (playedProfile\<lparr>solarEnergy := 120, offScreenMinutes := 30\<rparr>)
   \<and> pendingActivities (verifyActivity True (activity_id twinActivity) twinState twinState) = []
   \<and> reachable playedState
   \<and> pendingActivities playedState = [playedActivity]
   \<and> pendingActivities (verifyActivity False (activity_id playedActivity) playedState playedState)
       = [playedActivity]
   \<and> pendingActivities (rejectActivity False (activity_id playedActivity) playedState playedState)
       = [playedActivity]"
proof -
  have p: "currentProfile twinState = Some playedProfile"
    and q: "pendingActivities twinState = [playedActivity, twinActivity]"
    by (simp_all add: twinState_def playedState_def)
  have p': "currentProfile playedState = Some playedProfile"
    and q': "pendingActivities playedState = [playedActivity]"
    by (simp_all add: playedState_def)
  have v: "minutes twinActivity = 7" "activity_name twinActivity = act_name (ACTIVITIES ! 1)"
    "solarPerMin (ACTIVITIES ! 1) = 2" "solarEnergy playedProfile = 30"
    "offScreenMinutes playedProfile = 0" "activity_id twinActivity = activity_id playedActivity"
    "activity_solarEnergy playedActivity = 90" "minutes playedActivity = 30"
    by (simp_all add: twinActivity_def playedActivity_def ACTIVITIES_def playedProfile_def
        demo_defs)
  have x: "currentProfile (verifyActivity True (activity_id twinActivity) twinState twinState)
       = Some (playedProfile\<lparr>solarEnergy := 120, offScreenMinutes := 30\<rparr>)"
    by (simp add: verifyActivity_def p q v Let_def savePendingActivities_def updateProfile_cur)
  have y: "pendingActivities (verifyActivity True (activity_id twinActivity) twinState twinState) = []"
    by (simp add: verifyActivity_def p q v Let_def savePendingActivities_def)
  have z: "pendingActivities (verifyActivity False (activity_id playedActivity) playedState playedState)
       = [playedActivity]"
    by (simp add: verifyActivity_def p' q' Let_def savePendingActivities_def)
  have w: "pendingActivities (rejectActivity False (activity_id playedActivity) playedState playedState)
       = [playedActivity]"
    by (simp add: rejectActivity_def q' savePendingActivities_def)
  show ?thesis
    using reachable_twinState reachable_playedState p q q' v(1) v(2) v(3) v(4) x y z w by blast
qed

text \<open>
  Claim C7, amended. In a reachable state with a current profile, take a pending
  activity. Approval credits the stored reward and the minutes of the first queue entry
  that carries its id; rejection changes no resource counter. When the write to storage
  succeeds, either handler removes from the queue every entry with that id, the activity
  among them; when the write fails, the queue stays as it was. When the ids of the
  queue are pairwise distinct, the credit is exactly the activity's minutes times the
  rate of its activity type, and a successful write removes that entry and no other.
\<close>

theorem approve_credits_reject_discards:
  "reachable s \<Longrightarrow> currentProfile s = Some p \<Longrightarrow> a \<in> set (pendingActivities s) \<Longrightarrow>
   (\<exists>b. find_first (\<lambda>x. activity_id x = activity_id a) (pendingActivities s) = Some b
        \<and> currentProfile (verifyActivity stored (activity_id a) s s)
            = Some (p\<lparr>solarEnergy := solarEnergy p + activity_solarEnergy b,
                      offScreenMinutes := offScreenMinutes p + minutes b\<rparr>))
   \<and> pendingActivities (verifyActivity True (activity_id a) s s)
       = filter (\<lambda>x. activity_id x \<noteq> activity_id a) (pendingActivities s)
   \<and> a \<notin> set (pendingActivities (verifyActivity True (activity_id a) s s))
   \<and> pendingActivities (verifyActivity False (activity_id a) s s) = pendingActivities s
   \<and> rejectActivity True (activity_id a) s s
       = s\<lparr>pendingActivities :=
             filter (\<lambda>x. activity_id x \<noteq> activity_id a) (pendingActivities s)\<rparr>
   \<and> a \<notin> set (pendingActivities (rejectActivity True (activity_id a) s s))
   \<and> rejectActivity False (activity_id a) s s = s
   \<and> currentProfile (rejectActivity stored (activity_id a) s s) = Some p
   \<and> (distinct (map activity_id (pendingActivities s)) \<longrightarrow>
        (\<exists>t \<in> set ACTIVITIES. act_name t = activity_name a)
        \<and> (\<forall>t \<in> set ACTIVITIES. act_name t = activity_name a \<longrightarrow>
             currentProfile (verifyActivity stored (activity_id a) s s)
               = Some (p\<lparr>solarEnergy := solarEnergy p + minutes a * solarPerMin t,
                         offScreenMinutes := offScreenMinutes p + minutes a\<rparr>))
        \<and> pendingActivities (verifyActivity True (activity_id a) s s)
            = remove1 a (pendingActivities s)
        \<and> pendingActivities (rejectActivity True (activity_id a) s s)
            = remove1 a (pendingActivities s))"
proof -
  assume r: "reachable s" and p: "currentProfile s = Some p"
    and a: "a \<in> set (pendingActivities s)"
  obtain b where b: "find_first (\<lambda>x. activity_id x = activity_id a) (pendingActivities s) = Some b"
    using find_first_exists[OF a, of "\<lambda>x. activity_id x = activity_id a"] by auto
  have c: "currentProfile (verifyActivity stored (activity_id a) s s)
            = Some (p\<lparr>solarEnergy := solarEnergy p + activity_solarEnergy b,
                      offScreenMinutes := offScreenMinutes p + minutes b\<rparr>)"
    by (simp add: verifyActivity_def b p Let_def savePendingActivities_def updateProfile_cur)
  have v: "pendingActivities (verifyActivity True (activity_id a) s s)
             = filter (\<lambda>x. activity_id x \<noteq> activity_id a) (pendingActivities s)"
    by (simp add: verifyActivity_def b p Let_def savePendingActivities_def)
  have vf: "pendingActivities (verifyActivity False (activity_id a) s s) = pendingActivities s"
    by (simp add: verifyActivity_def b p Let_def savePendingActivities_def)
  have j: "rejectActivity True (activity_id a) s s
       = s\<lparr>pendingActivities :=
             filter (\<lambda>x. activity_id x \<noteq> activity_id a) (pendingActivities s)\<rparr>"
    by (simp add: rejectActivity_def savePendingActivities_def)
  have jf: "rejectActivity False (activity_id a) s s = s"
    by (simp add: rejectActivity_def savePendingActivities_def)
  have A: "a \<notin> set (pendingActivities (verifyActivity True (activity_id a) s s))"
    unfolding v by simp
  have B: "a \<notin> set (pendingActivities (rejectActivity True (activity_id a) s s))"
    unfolding j by simp
  have C: "currentProfile (rejectActivity stored (activity_id a) s s) = Some p"
    using p by (simp add: rejectActivity_def savePendingActivities_def)
  have D: "(\<exists>t \<in> set ACTIVITIES. act_name t = activity_name a)
        \<and> (\<forall>t \<in> set ACTIVITIES. act_name t = activity_name a \<longrightarrow>
             currentProfile (verifyActivity stored (activity_id a) s s)
               = Some (p\<lparr>solarEnergy := solarEnergy p + minutes a * solarPerMin t,
                         offScreenMinutes := offScreenMinutes p + minutes a\<rparr>))
        \<and> pendingActivities (verifyActivity True (activity_id a) s s)
            = remove1 a (pendingActivities s)
        \<and> pendingActivities (rejectActivity True (activity_id a) s s)
            = remove1 a (pendingActivities s)"
    if d: "distinct (map activity_id (pendingActivities s))"
  proof -
    have "activity_ok a" using reachable_ok[OF r] a by (simp add: state_ok_def list_all_iff)
    then obtain t0 where t0: "t0 \<in> set ACTIVITIES" "activity_name a = act_name t0"
      "activity_solarEnergy a = minutes a * solarPerMin t0"
      by (auto simp add: activity_ok_def list_ex_iff)
    have f: "find_first (\<lambda>x. activity_id x = activity_id a) (pendingActivities s) = Some a"
      using d a by (rule find_first_distinct)
    then have ba: "b = a" using b by simp
    have g: "filter (\<lambda>x. activity_id x \<noteq> activity_id a) (pendingActivities s)
               = remove1 a (pendingActivities s)"
      using d a by (rule filter_distinct_remove1)
    have 1: "\<exists>t \<in> set ACTIVITIES. act_name t = activity_name a" using t0 by auto
    have 2: "\<forall>t \<in> set ACTIVITIES. act_name t = activity_name a \<longrightarrow>
          currentProfile (verifyActivity stored (activity_id a) s s)
            = Some (p\<lparr>solarEnergy := solarEnergy p + minutes a * solarPerMin t,
                      offScreenMinutes := offScreenMinutes p + minutes a\<rparr>)"
    proof (intro ballI impI)
      fix t assume "t \<in> set ACTIVITIES" "act_name t = activity_name a"
      then have "solarPerMin t = solarPerMin t0"
        using t0 ACTIVITIES_rate_by_name[of t t0] by simp
      then show "currentProfile (verifyActivity stored (activity_id a) s s)
            = Some (p\<lparr>solarEnergy := solarEnergy p + minutes a * solarPerMin t,
                      offScreenMinutes := offScreenMinutes p + minutes a\<rparr>)"
        using t0(3) c ba by simp
    qed
    have 3: "pendingActivities (verifyActivity True (activity_id a) s s)
               = remove1 a (pendingActivities s)"
      unfolding v g ..
    have 4: "pendingActivities (rejectActivity True (activity_id a) s s)
               = remove1 a (pendingActivities s)"
      unfolding j using g by simp
    show ?thesis using 1 2 3 4 by blast
  qed
  show ?thesis using b c v vf j jf A B C D by blast
qed

theorem approve_credits_reject_discards_witness:
  "reachable playedState
   \<and> currentProfile playedState = Some playedProfile
   \<and> pendingActivities playedState = [playedActivity]
   \<and> playedActivity \<in> set (pendingActivities playedState)
   \<and> distinct (map activity_id (pendingActivities playedState))
   \<and> minutes playedActivity = 30
   \<and> activity_name playedActivity = act_name (ACTIVITIES ! 0)
   \<and> solarPerMin (ACTIVITIES ! 0) = 3
   \<and> solarEnergy playedProfile = 30
   \<and> currentProfile (verifyActivity True (activity_id playedActivity) playedState playedState)
       = Some (playedProfile\<lparr>solarEnergy := 120, offScreenMinutes := 30\<rparr>)
   \<and> pendingActivities (verifyActivity True (activity_id playedActivity) playedState playedState)
       = []
   \<and> rejectActivity True (activity_id playedActivity) playedState playedState
       = playedState\<lparr>pendingActivities := []\<rparr>
   \<and> rejectActivity False (activity_id playedActivity) playedState playedState = playedState"
proof -
  have p: "currentProfile playedState = Some playedProfile"
    and q: "pendingActivities playedState = [playedActivity]"
    by (simp_all add: playedState_def)
  have a: "playedActivity \<in> set (pendingActivities playedState)"
    and d: "distinct (map activity_id (pendingActivities playedState))"
    by (simp_all add: q)
  have v: "minutes playedActivity = 30" "activity_name playedActivity = act_name (ACTIVITIES ! 0)"
    "solarPerMin (ACTIVITIES ! 0) = 3" "solarEnergy playedProfile = 30"
    "offScreenMinutes playedProfile = 0" "ACTIVITIES ! 0 \<in> set ACTIVITIES"
    by (simp_all add: playedActivity_def ACTIVITIES_def playedProfile_def demo_defs)
  note t = approve_credits_reject_discards[OF reachable_playedState p a, of True]
  from t d have t': "\<forall>t \<in> set ACTIVITIES. act_name t = activity_name playedActivity \<longrightarrow>
             currentProfile (verifyActivity True (activity_id playedActivity) playedState playedState)
               = Some (playedProfile\<lparr>solarEnergy := solarEnergy playedProfile
                           + minutes playedActivity * solarPerMin t,
                         offScreenMinutes := offScreenMinutes playedProfile
                           + minutes playedActivity\<rparr>)"
    and y': "pendingActivities (verifyActivity True (activity_id playedActivity) playedState playedState)
       = remove1 playedActivity (pendingActivities playedState)"
    by blast+
  from t' v(6) v(2) have "currentProfile (verifyActivity True (activity_id playedActivity) playedState playedState)
       = Some (playedProfile\<lparr>solarEnergy := solarEnergy playedProfile + minutes playedActivity * solarPerMin (ACTIVITIES ! 0),
                    offScreenMinutes := offScreenMinutes playedProfile + minutes playedActivity\<rparr>)"
    by metis
  then have x: "currentProfile (verifyActivity True (activity_id playedActivity) playedState playedState)
       = Some (playedProfile\<lparr>solarEnergy := 120, offScreenMinutes := 30\<rparr>)"
    by (simp add: v(1,3,4,5))
  have y: "pendingActivities (verifyActivity True (activity_id playedActivity) playedState playedState) = []"
    using y' by (simp add: q)
  from t have "rejectActivity True (activity_id playedActivity) playedState playedState
       = playedState\<lparr>pendingActivities :=
           filter (\<lambda>x. activity_id x \<noteq> activity_id playedActivity) (pendingActivities playedState)\<rparr>"
    by blast
  then have z: "rejectActivity True (activity_id playedActivity) playedState playedState
       = playedState\<lparr>pendingActivities := []\<rparr>"
    by (simp add: q)
  from t have w: "rejectActivity False (activity_id playedActivity) playedState playedState
       = playedState"
    by blast
  show ?thesis
    using reachable_playedState p q a d v(1) v(2) v(3) v(4) x y z w by blast
qed

subsection \<open>Arithmetic questions\<close>

text \<open>What the loop returns, when it returns.\<close>

lemma distractorLoop_invariant:
  assumes "distractorLoop rnd i answer opts = Some r"
  shows "length opts \<le> 4 \<and> distinct opts \<and> answer \<in> set opts \<and> (\<forall>v \<in> set opts. 0 \<le> v) \<longrightarrow>
         length r = 4 \<and> distinct r \<and> answer \<in> set r \<and> (\<forall>v \<in> set r. 0 \<le> v)"
  using assms
proof (induction rule: distractorLoop.raw_induct[rotated 1, consumes 1])
  case (1 loop rnd i answer opts r)
  show ?case
  proof (cases "length opts < 4")
    case False
    with 1(2) show ?thesis by auto
  next
    case True
    show ?thesis
    proof (cases "wrong rnd i answer \<noteq> answer \<and> wrong rnd i answer \<ge> 0
               \<and> wrong rnd i answer \<notin> set opts")
      case w: True
      with True 1(2) have "loop rnd (i + 1) answer (opts @ [wrong rnd i answer]) = Some r"
        by simp
      from 1(1)[OF this] True w show ?thesis by auto
    next
      case w: False
      with True 1(2) have "loop rnd (i + 1) answer opts = Some r" by auto
      from 1(1)[OF this] show ?thesis .
    qed
  qed
qed

text \<open>A stream whose wrong answers all equal the answer never fills the options.\<close>

lemma distractorLoop_stuck:
  assumes "distractorLoop rnd i answer opts = Some r"
  shows "(\<forall>j. wrong rnd j answer = answer) \<longrightarrow> 4 \<le> length opts"
  using assms
proof (induction rule: distractorLoop.raw_induct[rotated 1, consumes 1])
  case (1 loop rnd i answer opts r)
  show ?case
  proof
    assume s: "\<forall>j. wrong rnd j answer = answer"
    show "4 \<le> length opts"
    proof (rule ccontr)
      assume "\<not> 4 \<le> length opts"
      then have "length opts < 4" by simp
      with 1(2) s have "loop rnd (i + 1) answer opts = Some r" by simp
      from 1(1)[OF this] s \<open>length opts < 4\<close> show False by simp
    qed
  qed
qed

text \<open>
  The loop returns as soon as the stream offers enough wrong answers that are kept: it
  runs through the rejected draws up to the first kept one, and then needs one fewer.
\<close>

lemma distractorLoop_done: "4 \<le> length opts \<Longrightarrow> distractorLoop rnd i answer opts = Some opts"
  by (subst distractorLoop.simps) simp

lemma distractorLoop_keep:
  "length opts < 4 \<Longrightarrow> wrong rnd i answer \<noteq> answer \<Longrightarrow> 0 \<le> wrong rnd i answer \<Longrightarrow>
   wrong rnd i answer \<notin> set opts \<Longrightarrow>
   distractorLoop rnd i answer opts
     = distractorLoop rnd (Suc i) answer (opts @ [wrong rnd i answer])"
  by (subst distractorLoop.simps) simp

lemma distractorLoop_drop:
  "length opts < 4 \<Longrightarrow>
   \<not> (wrong rnd i answer \<noteq> answer \<and> 0 \<le> wrong rnd i answer \<and> wrong rnd i answer \<notin> set opts) \<Longrightarrow>
   distractorLoop rnd i answer opts = distractorLoop rnd (Suc i) answer opts"
  by (subst distractorLoop.simps) auto

lemma distractorLoop_skip:
  assumes "length opts < 4" "i \<le> j"
    and "\<forall>m. i \<le> m \<and> m < j \<longrightarrow>
           \<not> (wrong rnd m answer \<noteq> answer \<and> 0 \<le> wrong rnd m answer
               \<and> wrong rnd m answer \<notin> set opts)"
  shows "distractorLoop rnd i answer opts = distractorLoop rnd j answer opts"
  using assms(2,3)
proof (induction rule: dec_induct)
  case base
  show ?case by simp
next
  case (step n)
  have "distractorLoop rnd n answer opts = distractorLoop rnd (Suc n) answer opts"
    using assms(1) step.prems step.hyps by (intro distractorLoop_drop) auto
  moreover have "distractorLoop rnd i answer opts = distractorLoop rnd n answer opts"
    using step.prems step.hyps by (intro step.IH) auto
  ultimately show ?case by simp
qed

lemma distractorLoop_terminates:
  assumes "finite W" "4 - length opts \<le> card W"
    and "\<forall>w \<in> W. w \<noteq> answer \<and> 0 \<le> w \<and> w \<notin> set opts \<and> (\<exists>j\<ge>i. wrong rnd j answer = w)"
  shows "\<exists>r. distractorLoop rnd i answer opts = Some r"
  using assms
proof (induction "4 - length opts" arbitrary: i opts W)
  case 0
  then show ?case by (simp add: distractorLoop_done)
next
  case (Suc n)
  then have len: "length opts < 4" by simp
  have "W \<noteq> {}" using Suc.hyps(2) Suc.prems(2) by auto
  then obtain w0 where "w0 \<in> W" by blast
  with Suc.prems(3) have "w0 \<noteq> answer \<and> 0 \<le> w0 \<and> w0 \<notin> set opts
      \<and> (\<exists>j\<ge>i. wrong rnd j answer = w0)"
    by (rule bspec)
  then obtain j0 where "i \<le> j0" "wrong rnd j0 answer = w0" "w0 \<noteq> answer" "0 \<le> w0"
    "w0 \<notin> set opts"
    by auto
  then have "i \<le> j0 \<and> wrong rnd j0 answer \<noteq> answer \<and> 0 \<le> wrong rnd j0 answer
      \<and> wrong rnd j0 answer \<notin> set opts"
    by simp
  then have ex: "\<exists>j. i \<le> j \<and> wrong rnd j answer \<noteq> answer \<and> 0 \<le> wrong rnd j answer
      \<and> wrong rnd j answer \<notin> set opts" ..
  define j where "j = (LEAST j. i \<le> j \<and> wrong rnd j answer \<noteq> answer \<and> 0 \<le> wrong rnd j answer
      \<and> wrong rnd j answer \<notin> set opts)"
  have j: "i \<le> j" "wrong rnd j answer \<noteq> answer" "0 \<le> wrong rnd j answer"
    "wrong rnd j answer \<notin> set opts"
    using LeastI_ex[OF ex] unfolding j_def by blast+
  have least: "\<not> (wrong rnd m answer \<noteq> answer \<and> 0 \<le> wrong rnd m answer
               \<and> wrong rnd m answer \<notin> set opts)" if "i \<le> m" "m < j" for m
    using not_less_Least[of m "\<lambda>j. i \<le> j \<and> wrong rnd j answer \<noteq> answer \<and> 0 \<le> wrong rnd j answer
      \<and> wrong rnd j answer \<notin> set opts"] that unfolding j_def by blast
  have "distractorLoop rnd i answer opts = distractorLoop rnd j answer opts"
    using len j(1) least by (intro distractorLoop_skip) auto
  also have "\<dots> = distractorLoop rnd (Suc j) answer (opts @ [wrong rnd j answer])"
    using len j by (intro distractorLoop_keep)
  finally have e: "distractorLoop rnd i answer opts
      = distractorLoop rnd (Suc j) answer (opts @ [wrong rnd j answer])" .
  let ?W = "W - {wrong rnd j answer}"
  have "\<exists>r. distractorLoop rnd (Suc j) answer (opts @ [wrong rnd j answer]) = Some r"
  proof (rule Suc.hyps(1))
    show "n = 4 - length (opts @ [wrong rnd j answer])" using Suc.hyps(2) by simp
    show "finite ?W" using Suc.prems(1) by simp
    have "card W - 1 \<le> card ?W" using Suc.prems(1) by (simp add: card_Diff_singleton_if)
    then show "4 - length (opts @ [wrong rnd j answer]) \<le> card ?W"
      using Suc.prems(2) by simp
    show "\<forall>w \<in> ?W. w \<noteq> answer \<and> 0 \<le> w \<and> w \<notin> set (opts @ [wrong rnd j answer])
            \<and> (\<exists>k\<ge>Suc j. wrong rnd k answer = w)"
    proof
      fix w assume w: "w \<in> ?W"
      then have "w \<in> W" by simp
      with Suc.prems(3) have "w \<noteq> answer \<and> 0 \<le> w \<and> w \<notin> set opts
          \<and> (\<exists>j\<ge>i. wrong rnd j answer = w)"
        by (rule bspec)
      then obtain k where k: "w \<noteq> answer" "0 \<le> w" "w \<notin> set opts" "i \<le> k"
        "wrong rnd k answer = w"
        by auto
      have "\<not> k < j" using least[of k] k by blast
      moreover have "k \<noteq> j" using w k(5) by auto
      ultimately have "Suc j \<le> k" by simp
      then show "w \<noteq> answer \<and> 0 \<le> w \<and> w \<notin> set (opts @ [wrong rnd j answer])
            \<and> (\<exists>k\<ge>Suc j. wrong rnd k answer = w)"
        using k w by auto
    qed
  qed
  then show ?case using e by simp
qed

lemma indexOf_distinct:
  "v \<in> set xs \<Longrightarrow> 0 \<le> indexOf xs v \<and> indexOf xs v < int (length xs) \<and> xs ! nat (indexOf xs v) = v"
proof (induction xs)
  case Nil
  then show ?case by simp
next
  case (Cons x xs)
  show ?case
  proof (cases "x = v")
    case True
    then show ?thesis by simp
  next
    case False
    then have "v \<in> set xs" using Cons.prems by simp
    from Cons.IH[OF this] False show ?thesis by (simp add: Let_def nat_add_distrib)
  qed
qed

text \<open>Decimal strings of different non-negative numbers differ: they parse back.\<close>

lemma digit_char_code: "d < 10 \<Longrightarrow> (of_char (digit_char d) :: nat) = 48 + d"
  by (simp add: digit_char_def)

lemma string_of_nat_parse:
  "foldl (\<lambda>acc c. 10 * acc + (of_char c - 48)) 0 (string_of_nat n) = n"
proof (induction n rule: string_of_nat.induct)
  case (1 n)
  show ?case
  proof (cases "n < 10")
    case True
    then show ?thesis by (subst string_of_nat.simps) (simp add: digit_char_code)
  next
    case False
    then have "foldl (\<lambda>acc c. 10 * acc + (of_char c - 48)) 0 (string_of_nat (n div 10)) = n div 10"
      by (rule 1)
    moreover have "(of_char (digit_char (n mod 10)) :: nat) = 48 + n mod 10"
      by (rule digit_char_code) simp
    ultimately show ?thesis using False
      by (subst string_of_nat.simps) simp
  qed
qed

lemma string_of_nat_inj:
  assumes "string_of_nat m = string_of_nat n"
  shows "m = n"
proof -
  have "m = foldl (\<lambda>acc c. 10 * acc + (of_char c - 48)) 0 (string_of_nat m)"
    by (rule string_of_nat_parse[symmetric])
  also have "\<dots> = foldl (\<lambda>acc c. 10 * acc + (of_char c - 48)) 0 (string_of_nat n)"
    by (simp only: assms)
  also have "\<dots> = n" by (rule string_of_nat_parse)
  finally show ?thesis .
qed

lemma String_inj_on_nonneg: "inj_on String {v. 0 \<le> v}"
proof (rule inj_onI)
  fix x y :: int
  assume "x \<in> {v. 0 \<le> v}" "y \<in> {v. 0 \<le> v}" "String x = String y"
  then have "string_of_nat (nat x) = string_of_nat (nat y)" "0 \<le> x" "0 \<le> y"
    by (simp_all add: String_def)
  then show "x = y" using string_of_nat_inj[of "nat x" "nat y"] by simp
qed

text \<open>Every option the loop adds is the wrong answer of some call, one that is kept.\<close>

lemma distractorLoop_kept:
  assumes "distractorLoop rnd i answer opts = Some r"
  shows "\<exists>ks. r = opts @ map (\<lambda>k. wrong rnd k answer) ks
           \<and> (\<forall>k \<in> set ks. i \<le> k \<and> wrong rnd k answer \<noteq> answer \<and> 0 \<le> wrong rnd k answer)"
  using assms
proof (induction rule: distractorLoop.raw_induct[rotated 1, consumes 1])
  case (1 loop rnd i answer opts r)
  show ?case
  proof (cases "length opts < 4")
    case False
    with 1(2) have "r = opts @ map (\<lambda>k. wrong rnd k answer) []" by simp
    then show ?thesis by (intro exI[of _ "[]"]) simp
  next
    case True
    show ?thesis
    proof (cases "wrong rnd i answer \<noteq> answer \<and> wrong rnd i answer \<ge> 0
               \<and> wrong rnd i answer \<notin> set opts")
      case w: True
      with True 1(2) have "loop rnd (i + 1) answer (opts @ [wrong rnd i answer]) = Some r"
        by simp
      from 1(1)[OF this] obtain ks where ks:
        "r = (opts @ [wrong rnd i answer]) @ map (\<lambda>k. wrong rnd k answer) ks"
        "\<forall>k \<in> set ks. i + 1 \<le> k \<and> wrong rnd k answer \<noteq> answer \<and> 0 \<le> wrong rnd k answer"
        by blast
      have "r = opts @ map (\<lambda>k. wrong rnd k answer) (i # ks)" using ks(1) by simp
      moreover have "\<forall>k \<in> set (i # ks). i \<le> k \<and> wrong rnd k answer \<noteq> answer
          \<and> 0 \<le> wrong rnd k answer"
        using ks(2) w by auto
      ultimately show ?thesis by blast
    next
      case w: False
      with True 1(2) have "loop rnd (i + 1) answer opts = Some r" by auto
      from 1(1)[OF this] obtain ks where ks:
        "r = opts @ map (\<lambda>k. wrong rnd k answer) ks"
        "\<forall>k \<in> set ks. i + 1 \<le> k \<and> wrong rnd k answer \<noteq> answer \<and> 0 \<le> wrong rnd k answer"
        by blast
      have "\<forall>k \<in> set ks. i \<le> k \<and> wrong rnd k answer \<noteq> answer \<and> 0 \<le> wrong rnd k answer"
        using ks(2) by auto
      with ks(1) show ?thesis by blast
    qed
  qed
qed

lemma mathsSwitch_nonneg:
  assumes "\<forall>k n. 0 \<le> rnd k (int n)"
    and "mathsSwitch rnd (AGE_CONFIG g) = (a, b, answer, questionText)"
  shows "0 \<le> answer"
proof -
  have f: "0 \<le> rnd k c" if "0 \<le> c" for k c
    using assms(1)[rule_format, of k "nat c"] that by simp
  have lo: "mathsRange_min (AGE_CONFIG g) = 1" by (cases g) simp_all
  have hi: "1 \<le> mathsRange_max (AGE_CONFIG g)" by (cases g) simp_all
  have f1: "0 \<le> rnd 1 (mathsRange_max (AGE_CONFIG g))" "0 \<le> rnd 2 (mathsRange_max (AGE_CONFIG g))"
    "0 \<le> rnd 1 12" "0 \<le> rnd 2 12"
    using f[of "mathsRange_max (AGE_CONFIG g)"] f[of 12] hi by simp_all
  have m: "0 \<le> (rnd 1 12 + 1) * (rnd 2 12 + 1)"
    using f1 by (intro mult_nonneg_nonneg) simp_all
  show ?thesis
    using assms(2) f1 m unfolding mathsSwitch_def Let_def lo
    by (auto split: if_splits)
qed

lemma generateMathsQuestion_Some:
  assumes "generateMathsQuestion rnd srt (Some cp) = Some q"
    and "mathsSwitch rnd (AGE_CONFIG (ageGroup cp)) = (a, b, answer, questionText)"
  obtains r where "distractorLoop rnd 3 answer [answer] = Some r"
    and "q = \<lparr>question = questionText, options = map String (srt r),
              correctIndex = indexOf (srt r) answer\<rparr>"
  using assms by (auto simp add: generateMathsQuestion_def Let_def split: option.splits)

text \<open>
  Claim C6, as stated: for every profile and every random stream the generation of an
  arithmetic question succeeds. It does not for the stream that always draws 0.5, where
  \<open>Math.floor(0.5 * n)\<close> is half of \<open>n\<close>, rounded down: the seven-year-old gets \<open>26 - 14\<close>,
  every wrong answer is \<open>12 + (5 - 5)\<close>, the answer itself, and the loop never collects a
  second option.
\<close>

theorem generateMathsQuestion_counterexample:
  "generateMathsQuestion (\<lambda>k n. n div 2) (\<lambda>xs. xs) (Some demoProfile) = None"
proof (rule ccontr)
  assume "generateMathsQuestion (\<lambda>k n. n div 2) (\<lambda>xs. xs) (Some demoProfile) \<noteq> None"
  then obtain q
    where q: "generateMathsQuestion (\<lambda>k n. n div 2) (\<lambda>xs. xs) (Some demoProfile) = Some q"
    by blast
  have g: "ageGroup demoProfile = Age_7_8" by (simp add: demo_defs)
  have sw: "mathsSwitch (\<lambda>k n. n div 2) (AGE_CONFIG (ageGroup demoProfile))
              = (26, 14, 12, String 26 @ '' - '' @ String 14 @ '' = ?'')"
    unfolding g by (simp add: mathsSwitch_def Let_def)
  from generateMathsQuestion_Some[OF q sw] obtain r
    where r: "distractorLoop (\<lambda>k n. n div 2) 3 12 [12] = Some r" by blast
  have "\<forall>j. wrong (\<lambda>k n. n div 2) j 12 = 12" by (simp add: wrong_def)
  with distractorLoop_stuck[OF r] show False by simp
qed

text \<open>
  Claim C6, amended. Take any profile, any run of the random source whose floored
  products with natural numbers are not negative, and a sort that permutes its argument,
  and let \<open>answer\<close> be the answer that the first three calls determine. Whenever the
  generation returns, the question has exactly 4 options, the decimal strings of 4
  pairwise distinct non-negative values, the answer among them, and \<open>correctIndex\<close> is
  the position of the answer after shuffling. The generation returns if and only if the
  calls from the fourth on produce three pairwise different wrong answers that are not
  negative and not the answer.
\<close>

theorem generateMathsQuestion_four_options:
  assumes "\<forall>k n. 0 \<le> rnd k (int n)"
    and "\<forall>xs. mset (srt xs) = mset xs"
    and "mathsSwitch rnd (AGE_CONFIG (ageGroup cp)) = (a, b, answer, questionText)"
  shows "(\<forall>q. generateMathsQuestion rnd srt (Some cp) = Some q \<longrightarrow>
            question q = questionText
            \<and> (\<exists>vals. options q = map String vals \<and> length vals = 4 \<and> distinct vals
                  \<and> (\<forall>v \<in> set vals. 0 \<le> v) \<and> answer \<in> set vals
                  \<and> 0 \<le> correctIndex q \<and> correctIndex q < 4
                  \<and> vals ! nat (correctIndex q) = answer)
            \<and> length (options q) = 4 \<and> distinct (options q)
            \<and> options q ! nat (correctIndex q) = String answer)
         \<and> ((\<exists>q. generateMathsQuestion rnd srt (Some cp) = Some q) =
             (\<exists>i j k. 3 \<le> i \<and> 3 \<le> j \<and> 3 \<le> k
                \<and> wrong rnd i answer \<noteq> answer \<and> 0 \<le> wrong rnd i answer
                \<and> wrong rnd j answer \<noteq> answer \<and> 0 \<le> wrong rnd j answer
                \<and> wrong rnd k answer \<noteq> answer \<and> 0 \<le> wrong rnd k answer
                \<and> wrong rnd i answer \<noteq> wrong rnd j answer
                \<and> wrong rnd i answer \<noteq> wrong rnd k answer
                \<and> wrong rnd j answer \<noteq> wrong rnd k answer))"
proof -
  have ans: "0 \<le> answer" using assms(1) assms(3) by (rule mathsSwitch_nonneg)
  have loop: "length r = 4 \<and> distinct r \<and> answer \<in> set r \<and> (\<forall>v \<in> set r. 0 \<le> v)"
    if "distractorLoop rnd 3 answer [answer] = Some r" for r
    using distractorLoop_invariant[OF that] ans by simp
  have A: "question q = questionText
            \<and> (\<exists>vals. options q = map String vals \<and> length vals = 4 \<and> distinct vals
                  \<and> (\<forall>v \<in> set vals. 0 \<le> v) \<and> answer \<in> set vals
                  \<and> 0 \<le> correctIndex q \<and> correctIndex q < 4
                  \<and> vals ! nat (correctIndex q) = answer)
            \<and> length (options q) = 4 \<and> distinct (options q)
            \<and> options q ! nat (correctIndex q) = String answer"
    if q: "generateMathsQuestion rnd srt (Some cp) = Some q" for q
  proof -
    from generateMathsQuestion_Some[OF q assms(3)] obtain r
      where r: "distractorLoop rnd 3 answer [answer] = Some r"
        and qe: "q = \<lparr>question = questionText, options = map String (srt r),
                      correctIndex = indexOf (srt r) answer\<rparr>"
      by blast
    from loop[OF r] have lr: "length r = 4" and dr: "distinct r" and ar: "answer \<in> set r"
      and nr: "\<forall>v \<in> set r. 0 \<le> v"
      by blast+
    have m: "mset (srt r) = mset r" using assms(2) by blast
    have ss: "set (srt r) = set r" using m by (rule mset_eq_setD)
    have ls: "length (srt r) = 4" using mset_eq_length[OF m] lr by simp
    have ds: "distinct (srt r)" using dr mset_eq_imp_distinct_iff[OF m] by simp
    have ix: "0 \<le> indexOf (srt r) answer \<and> indexOf (srt r) answer < int (length (srt r))
              \<and> srt r ! nat (indexOf (srt r) answer) = answer"
      using ar ss by (intro indexOf_distinct) simp
    have inj: "inj_on String (set (srt r))"
      using nr ss by (intro inj_on_subset[OF String_inj_on_nonneg]) auto
    have 1: "question q = questionText" by (simp add: qe)
    have 2: "\<exists>vals. options q = map String vals \<and> length vals = 4 \<and> distinct vals
                    \<and> (\<forall>v \<in> set vals. 0 \<le> v) \<and> answer \<in> set vals
                    \<and> 0 \<le> correctIndex q \<and> correctIndex q < 4
                    \<and> vals ! nat (correctIndex q) = answer"
      using ls ds nr ss ar ix by (intro exI[of _ "srt r"]) (simp add: qe)
    have 3: "length (options q) = 4" by (simp add: qe ls)
    have 4: "distinct (options q)" using ds inj by (simp add: qe distinct_map)
    have "nat (indexOf (srt r) answer) < length (srt r)" using ix by linarith
    then have 5: "options q ! nat (correctIndex q) = String answer"
      using ix by (simp add: qe)
    show ?thesis using 1 2 3 4 5 by blast
  qed
  have B: "\<exists>q. generateMathsQuestion rnd srt (Some cp) = Some q"
    if "\<exists>i j k. 3 \<le> i \<and> 3 \<le> j \<and> 3 \<le> k
                \<and> wrong rnd i answer \<noteq> answer \<and> 0 \<le> wrong rnd i answer
                \<and> wrong rnd j answer \<noteq> answer \<and> 0 \<le> wrong rnd j answer
                \<and> wrong rnd k answer \<noteq> answer \<and> 0 \<le> wrong rnd k answer
                \<and> wrong rnd i answer \<noteq> wrong rnd j answer
                \<and> wrong rnd i answer \<noteq> wrong rnd k answer
                \<and> wrong rnd j answer \<noteq> wrong rnd k answer"
  proof -
    from that obtain i j k where ge: "3 \<le> i" "3 \<le> j" "3 \<le> k"
      and ok: "wrong rnd i answer \<noteq> answer" "0 \<le> wrong rnd i answer"
              "wrong rnd j answer \<noteq> answer" "0 \<le> wrong rnd j answer"
              "wrong rnd k answer \<noteq> answer" "0 \<le> wrong rnd k answer"
      and ne: "wrong rnd i answer \<noteq> wrong rnd j answer" "wrong rnd i answer \<noteq> wrong rnd k answer"
              "wrong rnd j answer \<noteq> wrong rnd k answer"
      by blast
    let ?W = "{wrong rnd i answer, wrong rnd j answer, wrong rnd k answer}"
    have "\<exists>r. distractorLoop rnd 3 answer [answer] = Some r"
    proof (rule distractorLoop_terminates[of ?W])
      show "finite ?W" by simp
      show "4 - length [answer] \<le> card ?W" using ne by simp
      show "\<forall>w \<in> ?W. w \<noteq> answer \<and> 0 \<le> w \<and> w \<notin> set [answer]
              \<and> (\<exists>n\<ge>3. wrong rnd n answer = w)"
        using ge ok by auto
    qed
    then obtain r where "distractorLoop rnd 3 answer [answer] = Some r" by blast
    then show ?thesis
      using assms(3) by (simp add: generateMathsQuestion_def Let_def)
  qed
  have C: "\<exists>i j k. 3 \<le> i \<and> 3 \<le> j \<and> 3 \<le> k
                \<and> wrong rnd i answer \<noteq> answer \<and> 0 \<le> wrong rnd i answer
                \<and> wrong rnd j answer \<noteq> answer \<and> 0 \<le> wrong rnd j answer
                \<and> wrong rnd k answer \<noteq> answer \<and> 0 \<le> wrong rnd k answer
                \<and> wrong rnd i answer \<noteq> wrong rnd j answer
                \<and> wrong rnd i answer \<noteq> wrong rnd k answer
                \<and> wrong rnd j answer \<noteq> wrong rnd k answer"
    if "\<exists>q. generateMathsQuestion rnd srt (Some cp) = Some q"
  proof -
    from that obtain q where q: "generateMathsQuestion rnd srt (Some cp) = Some q" by blast
    from generateMathsQuestion_Some[OF q assms(3)] obtain r
      where r: "distractorLoop rnd 3 answer [answer] = Some r" by blast
    from loop[OF r] have lr: "length r = 4" and dr: "distinct r" by blast+
    from distractorLoop_kept[OF r] obtain ks
      where ks: "r = [answer] @ map (\<lambda>k. wrong rnd k answer) ks"
        and us: "\<forall>k \<in> set ks. 3 \<le> k \<and> wrong rnd k answer \<noteq> answer \<and> 0 \<le> wrong rnd k answer"
      by blast
    have "length ks = 3" using lr ks by simp
    then obtain i j k where e: "ks = [i, j, k]"
      by (auto simp add: numeral_3_eq_3 length_Suc_conv)
    have "distinct (map (\<lambda>k. wrong rnd k answer) ks)" using dr ks by simp
    then have "wrong rnd i answer \<noteq> wrong rnd j answer" "wrong rnd i answer \<noteq> wrong rnd k answer"
      "wrong rnd j answer \<noteq> wrong rnd k answer"
      unfolding e by simp_all
    moreover have "3 \<le> i" "3 \<le> j" "3 \<le> k"
      "wrong rnd i answer \<noteq> answer" "0 \<le> wrong rnd i answer"
      "wrong rnd j answer \<noteq> answer" "0 \<le> wrong rnd j answer"
      "wrong rnd k answer \<noteq> answer" "0 \<le> wrong rnd k answer"
      using us unfolding e by simp_all
    ultimately show ?thesis by blast
  qed
  show ?thesis using A B C by blast
qed

lemma String_small: "String 7 = ''7''" "String 13 = ''13''" "String 18 = ''18''" "String 20 = ''20''"
  "String 21 = ''21''" "String 22 = ''22''"
  by code_simp+

theorem generateMathsQuestion_four_options_witness:
  "(\<forall>k n. 0 \<le> demoRnd k (int n))
   \<and> (\<forall>xs :: int list. mset (rev xs) = mset xs)
   \<and> mathsSwitch demoRnd (AGE_CONFIG (ageGroup demoProfile)) = (7, 13, 20, ''7 + 13 = ?'')
   \<and> wrong demoRnd 3 20 = 18 \<and> wrong demoRnd 5 20 = 21 \<and> wrong demoRnd 6 20 = 22
   \<and> generateMathsQuestion demoRnd rev (Some demoProfile)
       = Some \<lparr>question = ''7 + 13 = ?'', options = [''22'', ''21'', ''18'', ''20''],
               correctIndex = 3\<rparr>"
proof -
  have d: "\<forall>k n. 0 \<le> demoRnd k (int n)"
    by (simp add: demoRnd_def pos_imp_zdiv_nonneg_iff)
  have p: "\<forall>xs :: int list. mset (rev xs) = mset xs" by simp
  have g: "ageGroup demoProfile = Age_7_8" by (simp add: demo_defs)
  have sw: "mathsSwitch demoRnd (AGE_CONFIG (ageGroup demoProfile)) = (7, 13, 20, ''7 + 13 = ?'')"
    unfolding g by (simp add: mathsSwitch_def Let_def demoRnd_def String_small)
  have w: "wrong demoRnd 3 20 = 18" "wrong demoRnd 4 20 = 20" "wrong demoRnd 5 20 = 21"
    "wrong demoRnd 6 20 = 22"
    by (simp_all add: wrong_def demoRnd_def)
  have l: "distractorLoop demoRnd 3 20 [20] = Some [20, 18, 21, 22]"
    by (simp add: distractorLoop.simps[of demoRnd 3] distractorLoop.simps[of demoRnd 4]
        distractorLoop.simps[of demoRnd 5] distractorLoop.simps[of demoRnd 6]
        distractorLoop.simps[of demoRnd 7] w)
  have e: "generateMathsQuestion demoRnd rev (Some demoProfile)
       = Some \<lparr>question = ''7 + 13 = ?'', options = [''22'', ''21'', ''18'', ''20''],
               correctIndex = 3\<rparr>"
    by (simp add: generateMathsQuestion_def sw l Let_def String_small)
  note t = generateMathsQuestion_four_options[OF d p sw]
  have "\<exists>i j k. 3 \<le> i \<and> 3 \<le> j \<and> 3 \<le> k
                \<and> wrong demoRnd i 20 \<noteq> 20 \<and> 0 \<le> wrong demoRnd i 20
                \<and> wrong demoRnd j 20 \<noteq> 20 \<and> 0 \<le> wrong demoRnd j 20
                \<and> wrong demoRnd k 20 \<noteq> 20 \<and> 0 \<le> wrong demoRnd k 20
                \<and> wrong demoRnd i 20 \<noteq> wrong demoRnd j 20
                \<and> wrong demoRnd i 20 \<noteq> wrong demoRnd k 20
                \<and> wrong demoRnd j 20 \<noteq> wrong demoRnd k 20"
    using w by (intro exI[of _ 3] exI[of _ 5] exI[of _ 6]) simp
  with t have "\<exists>q. generateMathsQuestion demoRnd rev (Some demoProfile) = Some q" by blast
  then show ?thesis using d p sw w e by simp
qed

end
